theory Spec2Isabelle
  imports Main
begin

section \<open>The Ghost installer and uninstaller\<close>

text \<open>
  The repository holds two scripts, \<^verbatim>\<open>install.py\<close> and \<^verbatim>\<open>uninstall.py\<close>. Both are
  sequences of console output, operator prompts, filesystem queries and external commands.
  The embedding makes every interaction with the outside an \<^emph>\<open>event\<close> appended to a
  trace, and takes what the outside answers from a \<^emph>\<open>world\<close>: a record of oracles indexed
  by the number of events so far, so that the same command may return different exit codes
  at different moments of one run. \<^verbatim>\<open>raise SystemExit(...)\<close> is the left summand of the
  result.
\<close>

subsection \<open>Strings\<close>

text \<open>\<^verbatim>\<open>sep.join(xs)\<close>\<close>

fun join :: "string \<Rightarrow> string list \<Rightarrow> string" where
  "join sep [] = []"
| "join sep [x] = x"
| "join sep (x # y # ys) = x @ sep @ join sep (y # ys)"

text \<open>\<^verbatim>\<open>str(n)\<close> for an integer, as the f-string formats \<^verbatim>\<open>res.returncode\<close>.\<close>

definition digit_char :: "nat \<Rightarrow> char" where
  "digit_char d = char_of (48 + d)"

fun str_nat :: "nat \<Rightarrow> string" where
  "str_nat n = (if n < 10 then [digit_char n] else str_nat (n div 10) @ [digit_char (n mod 10)])"

definition str_int :: "int \<Rightarrow> string" where
  "str_int i = (if i < 0 then CHR ''-'' # str_nat (nat (- i)) else str_nat (nat i))"

text \<open>
  \<^verbatim>\<open>s.strip()\<close>: whitespace is removed at both ends. A \<open>char\<close> stands for the code point
  of the same number; the whitespace code points below 256 are 9 to 13, 28 to 32, 133
  and 160.
\<close>

definition isspace :: "char \<Rightarrow> bool" where
  "isspace c = (let n = (of_char c :: nat)
                in (9 \<le> n \<and> n \<le> 13) \<or> (28 \<le> n \<and> n \<le> 32) \<or> n = 133 \<or> n = 160)"

definition strip :: "string \<Rightarrow> string" where
  "strip s = rev (dropWhile isspace (rev (dropWhile isspace s)))"

text \<open>Substring test, Python's \<^verbatim>\<open>x in s\<close>; used to read traces, not by the scripts.\<close>

fun starts_with :: "string \<Rightarrow> string \<Rightarrow> bool" where
  "starts_with s [] = True"
| "starts_with [] (p # ps) = False"
| "starts_with (c # cs) (p # ps) = (c = p \<and> starts_with cs ps)"

fun contains :: "string \<Rightarrow> string \<Rightarrow> bool" where
  "contains [] x = (x = [])"
| "contains (c # cs) x = (starts_with (c # cs) x \<or> contains cs x)"

subsection \<open>Paths\<close>

text \<open>
  \<^verbatim>\<open>pathlib.Path\<close>: an anchor (drive and root, empty for a relative path) and the
  components below it. \<^verbatim>\<open>p / name\<close> appends one component; \<^verbatim>\<open>str(p)\<close> joins the
  components with the platform's separator, which is the backslash when \<^verbatim>\<open>os.name\<close> is
  \<^verbatim>\<open>nt\<close> and the slash otherwise; the empty path is printed as a dot.
\<close>

datatype path = Path (anchor: string) (parts: "string list")

definition joinpath :: "path \<Rightarrow> string \<Rightarrow> path" where
  "joinpath p name = Path (anchor p) (parts p @ [name])"

definition path_sep :: "string \<Rightarrow> string" where
  "path_sep os = (if os = ''nt'' then [CHR 0x5C] else ''/'')"

definition path_str :: "string \<Rightarrow> path \<Rightarrow> string" where
  "path_str os p = (if anchor p = [] \<and> parts p = [] then ''.''
                    else anchor p @ join (path_sep os) (parts p))"

subsection \<open>Events, worlds and results\<close>

text \<open>
  One event per call that reaches the outside. The answer the outside gave is part of the
  event, so a trace can be read without the world that produced it.
  \<^item> \<open>Log\<close>: \<^verbatim>\<open>console.log(text)\<close>;
  \<^item> \<open>Print\<close>: \<^verbatim>\<open>console.print(text)\<close>;
  \<^item> \<open>PrintPanel body title style\<close>: \<^verbatim>\<open>console.print(Panel(body, title=..., style=...))\<close>;
  \<^item> \<open>PromptAsk prompt choices default answer\<close>: \<^verbatim>\<open>Prompt.ask\<close>;
  \<^item> \<open>ConfirmAsk prompt default answer\<close>: \<^verbatim>\<open>Confirm.ask\<close>;
  \<^item> \<open>PathExists p answer\<close>: \<^verbatim>\<open>p.exists()\<close>;
  \<^item> \<open>Spawn argv returncode captured\<close>: \<^verbatim>\<open>subprocess.run(argv, ...)\<close>, where
    \<open>captured\<close> is the standard-error text handed to the script when the call passes
    \<^verbatim>\<open>capture_output=True\<close>, and \<open>None\<close> when it does not;
  \<^item> \<open>Rmtree p\<close>: \<^verbatim>\<open>shutil.rmtree(p)\<close>.
\<close>

datatype event =
    Log string
  | Print string
  | PrintPanel string "string option" "string option"
  | PromptAsk string "string list" string string
  | ConfirmAsk string bool bool
  | PathExists path bool
  | Spawn "string list" int "string option"
  | Rmtree path

text \<open>The \<^verbatim>\<open>argparse\<close> namespace of \<^verbatim>\<open>install.py\<close>.\<close>

record args =
  no_venv :: bool
  venv :: string
  brek :: bool
  yes :: bool

text \<open>
  The world. \<open>proc t argv\<close> is the exit code and the standard-error text of the process
  started with \<open>argv\<close> after \<open>t\<close> events; \<open>path_exists\<close>, \<open>prompt_answer\<close> and
  \<open>confirm_answer\<close> are indexed the same way. \<open>parse_path\<close> is pathlib's constructor
  \<^verbatim>\<open>Path(s)\<close>, \<open>ROOT\<close> the resolved directory of the script.
\<close>

record world =
  cli :: args
  os_name :: string
  sys_executable :: string
  ROOT :: path
  parse_path :: "string \<Rightarrow> path"
  path_exists :: "nat \<Rightarrow> path \<Rightarrow> bool"
  prompt_answer :: "nat \<Rightarrow> string"
  confirm_answer :: "nat \<Rightarrow> string \<Rightarrow> bool"
  proc :: "nat \<Rightarrow> string list \<Rightarrow> int \<times> string"

datatype exn = SystemExit string

type_synonym 'a io = "event list \<Rightarrow> (exn + 'a) \<times> event list"

definition io_return :: "'a \<Rightarrow> 'a io" where
  "io_return x tr = (Inr x, tr)"

definition io_raise :: "exn \<Rightarrow> 'a io" where
  "io_raise e tr = (Inl e, tr)"

text \<open>Sequencing: an exception of the first part skips the rest.\<close>

definition io_bind :: "'a io \<Rightarrow> ('a \<Rightarrow> 'b io) \<Rightarrow> 'b io" where
  "io_bind m f tr = (case m tr of (Inl e, tr') \<Rightarrow> (Inl e, tr') | (Inr x, tr') \<Rightarrow> f x tr')"

definition io_then :: "'a io \<Rightarrow> 'b io \<Rightarrow> 'b io" where
  "io_then m k = io_bind m (\<lambda>_. k)"

definition emit :: "event \<Rightarrow> unit io" where
  "emit e tr = (Inr (), tr @ [e])"

text \<open>
  The status with which the interpreter ends: 0 when \<^verbatim>\<open>main\<close> returns, 1 when a
  \<^verbatim>\<open>SystemExit\<close> carrying a message reaches the top (the message goes to standard error).
\<close>

fun exit_status :: "exn + unit \<Rightarrow> int" where
  "exit_status (Inr u) = 0"
| "exit_status (Inl (SystemExit msg)) = 1"

subsection \<open>The library calls\<close>

text \<open>
  The calls into \<^verbatim>\<open>rich\<close>, \<^verbatim>\<open>pathlib\<close>, \<^verbatim>\<open>shutil\<close> and \<^verbatim>\<open>subprocess\<close>. Each of them
  returns normally: what the scripts themselves decide depends on the answers and on the
  exit codes, and the only exception in either script is the \<^verbatim>\<open>SystemExit\<close> that the
  installer's \<^verbatim>\<open>run\<close> raises.
\<close>

definition console_log :: "string \<Rightarrow> unit io" where
  "console_log text = emit (Log text)"

definition console_print :: "string \<Rightarrow> unit io" where
  "console_print text = emit (Print text)"

definition console_print_panel :: "string \<Rightarrow> string option \<Rightarrow> string option \<Rightarrow> unit io" where
  "console_print_panel body title style = emit (PrintPanel body title style)"

definition Prompt_ask :: "world \<Rightarrow> string \<Rightarrow> string list \<Rightarrow> string \<Rightarrow> string io" where
  "Prompt_ask w prompt choices dflt tr =
     (let a = prompt_answer w (length tr)
      in (Inr a, tr @ [PromptAsk prompt choices dflt a]))"

definition Confirm_ask :: "world \<Rightarrow> string \<Rightarrow> bool \<Rightarrow> bool io" where
  "Confirm_ask w prompt dflt tr =
     (let a = confirm_answer w (length tr) prompt
      in (Inr a, tr @ [ConfirmAsk prompt dflt a]))"

definition exists :: "world \<Rightarrow> path \<Rightarrow> bool io" where
  "exists w p tr =
     (let a = path_exists w (length tr) p
      in (Inr a, tr @ [PathExists p a]))"

definition rmtree :: "path \<Rightarrow> unit io" where
  "rmtree p = emit (Rmtree p)"

text \<open>
  \<^verbatim>\<open>subprocess.run(cmd, env=env, capture_output=True, text=True)\<close> gives the script the
  exit code and the captured standard error; \<^verbatim>\<open>subprocess.run(cmd)\<close> gives it the exit
  code only, the child writing to the terminal it inherits.
\<close>

record completed_process =
  returncode :: int
  stderr :: string

definition subprocess_run_captured :: "world \<Rightarrow> string list \<Rightarrow> completed_process io" where
  "subprocess_run_captured w cmd tr =
     (let r = proc w (length tr) cmd
      in (Inr \<lparr>returncode = fst r, stderr = snd r\<rparr>, tr @ [Spawn cmd (fst r) (Some (snd r))]))"

definition subprocess_run_inherit :: "world \<Rightarrow> string list \<Rightarrow> int io" where
  "subprocess_run_inherit w cmd tr =
     (let r = proc w (length tr) cmd
      in (Inr (fst r), tr @ [Spawn cmd (fst r) None]))"

subsection \<open>install.py\<close>

definition VCS_PACKAGES :: "string list" where
  "VCS_PACKAGES =
    [''badges @ git+https://github.com/EntySec/Badges'',
     ''pex @ git+https://github.com/EntySec/Pex'',
     ''colorscript @ git+https://github.com/EntySec/ColorScript'',
     ''adb-shell>=0.1.0'',
     ''rich>=10.0'']"

definition PY_PACKAGES :: "string list" where
  "PY_PACKAGES = []"

text \<open>
  \<^verbatim>\<open>run(cmd, env, check)\<close>. No caller passes \<^verbatim>\<open>env\<close>, which stays \<^verbatim>\<open>None\<close> and is handed
  to \<^verbatim>\<open>subprocess.run\<close> unchanged.
\<close>

definition install_run :: "world \<Rightarrow> string list \<Rightarrow> bool \<Rightarrow> unit io" where
  "install_run w cmd check =
     io_then (console_log (''[bold purple]$[/bold purple] '' @ join '' '' cmd))
     (io_bind (subprocess_run_captured w cmd) (\<lambda>res.
        if returncode res \<noteq> 0 then
          io_then (console_print_panel (''[red]Error:[/red] '' @ strip (stderr res))
                     (Some ''Installation Error'') None)
            (if check then
               io_raise (SystemExit (''Command failed: '' @ join '' '' cmd @ '' (exit ''
                                       @ str_int (returncode res) @ '')''))
             else io_return ())
        else io_return ()))"

text \<open>
  \<^verbatim>\<open>ensure_virtualenv\<close>, lines 71 to 77: the interpreter and the installer inside the
  virtualenv, by the platform's layout.
\<close>

definition venv_executables :: "world \<Rightarrow> path \<Rightarrow> string \<times> string" where
  "venv_executables w venv_path =
     (if os_name w = ''nt'' then
        (path_str (os_name w) (joinpath (joinpath venv_path ''Scripts'') ''python.exe''),
         path_str (os_name w) (joinpath (joinpath venv_path ''Scripts'') ''pip.exe''))
      else
        (path_str (os_name w) (joinpath (joinpath venv_path ''bin'') ''python''),
         path_str (os_name w) (joinpath (joinpath venv_path ''bin'') ''pip'')))"

definition ensure_virtualenv :: "world \<Rightarrow> path \<Rightarrow> (string \<times> string) io" where
  "ensure_virtualenv w venv_path =
     io_then
       (io_bind (exists w venv_path) (\<lambda>there.
          if there then
            console_print_panel (''Using existing virtualenv: [bold]'' @ path_str (os_name w) venv_path
                                   @ ''[/bold]'') (Some ''Virtualenv'') None
          else
            io_then
              (console_print_panel (''Creating virtualenv at: [bold]'' @ path_str (os_name w) venv_path
                                      @ ''[/bold]'') (Some ''Virtualenv'') None)
              (install_run w [sys_executable w, ''-m'', ''venv'', path_str (os_name w) venv_path] True)))
       (io_return (venv_executables w venv_path))"

definition install_packages :: "world \<Rightarrow> string \<Rightarrow> string list \<Rightarrow> bool \<Rightarrow> unit io" where
  "install_packages w py_exe packages break_system =
     (if packages = [] then io_return ()
      else
        (let cmd = [py_exe, ''-m'', ''pip'', ''install''] @ packages;
             cmd = (if break_system then cmd @ [''--break-system-packages''] else cmd)
         in install_run w cmd True))"

definition install_local_package :: "world \<Rightarrow> string \<Rightarrow> bool \<Rightarrow> unit io" where
  "install_local_package w py_exe break_system =
     (let cmd = [py_exe, ''-m'', ''pip'', ''install'', ''.'', ''--no-deps''];
          cmd = (if break_system then cmd @ [''--break-system-packages''] else cmd)
      in install_run w cmd True)"

text \<open>
  \<^verbatim>\<open>main\<close>, lines 106 to 129: the two mode variables \<^verbatim>\<open>use_venv\<close> and \<^verbatim>\<open>use_brek\<close>,
  returned as a pair in this order.
\<close>

definition select_mode :: "world \<Rightarrow> (bool \<times> bool) io" where
  "select_mode w =
     (let use_brek = brek (cli w);
          use_venv = (\<not> no_venv (cli w));
          auto_yes = yes (cli w)
      in if \<not> (brek (cli w) \<or> no_venv (cli w)) \<and> \<not> auto_yes then
           io_bind (Prompt_ask w ''Choose install mode'' [''venv'', ''brek'', ''system''] ''venv'')
             (\<lambda>choice.
                if choice = ''venv'' then io_return (True, False)
                else if choice = ''brek'' then io_return (False, True)
                else io_return (False, False))
         else if auto_yes then io_return (True, False)
         else io_return (use_venv, use_brek))"

definition installer_banner :: string where
  "installer_banner =
     ''Ghost Installer '' @ [CHR 0xE2, CHR 0x80, CHR 0x94] @ '' staged installation''
       @ [CHR 0x0A, CHR 0x0A] @ ''Index 99 '' @ [CHR 0xE2, CHR 0x86, CHR 0x92] @ '' Exit''"

definition system_notice :: string where
  "system_notice =
     ''Installing into current Python interpreter (no virtualenv). --break-system-packages enabled''"

text \<open>\<^verbatim>\<open>main\<close>, line 131: \<^verbatim>\<open>break_system_flag = not use_venv\<close>.\<close>

definition break_system_flag_of :: "bool \<Rightarrow> bool" where
  "break_system_flag_of use_venv = (\<not> use_venv)"

text \<open>
  \<^verbatim>\<open>main\<close>, lines 135 to 138: the interpreter to install into. The installer path
  that \<^verbatim>\<open>ensure_virtualenv\<close> returns as well is not read again.
\<close>

definition resolve_target :: "world \<Rightarrow> bool \<Rightarrow> string io" where
  "resolve_target w use_venv =
     (if use_venv then
        io_bind (ensure_virtualenv w (parse_path w (venv (cli w)))) (\<lambda>(py_exe, pip_exe).
          io_return py_exe)
      else io_return (sys_executable w))"

text \<open>\<^verbatim>\<open>main\<close>, lines 140 to 153: the three install commands and the closing messages.\<close>

definition install_sequence :: "world \<Rightarrow> string \<Rightarrow> bool \<Rightarrow> unit io" where
  "install_sequence w py_exe break_system_flag =
     io_then (console_print ''[bold]Upgrading pip in target environment...[/bold]'')
    (io_then
       (let cmd_upgrade = [py_exe, ''-m'', ''pip'', ''install'', ''--upgrade'', ''pip''];
            cmd_upgrade = (if break_system_flag then cmd_upgrade @ [''--break-system-packages'']
                           else cmd_upgrade)
        in install_run w cmd_upgrade True)
    (io_then
       (console_print_panel (''Installing VCS/GitHub packages ('' @ str_nat (length VCS_PACKAGES)
                               @ '' items)...'') (Some ''Dependencies'') None)
    (io_then (install_packages w py_exe VCS_PACKAGES break_system_flag)
    (io_then (console_print_panel ''Installing Ghost main package...'' None (Some ''purple''))
    (io_then (install_local_package w py_exe break_system_flag)
    (io_then
       (console_print_panel ''[bold green]Installation completed successfully![/bold green]''
          None None)
       (console_print ''You can now run: ghost'')))))))"

text \<open>
  \<^verbatim>\<open>main\<close>, lines 131 to 153, from the two mode variables on. \<^verbatim>\<open>use_brek\<close> is not read
  again by the source.
\<close>

definition install_steps :: "world \<Rightarrow> bool \<Rightarrow> bool \<Rightarrow> unit io" where
  "install_steps w use_venv use_brek =
     (let break_system_flag = break_system_flag_of use_venv
      in io_then
           (if break_system_flag then
              console_print_panel system_notice (Some ''Notice'') (Some ''yellow'')
            else io_return ())
           (io_bind (resolve_target w use_venv) (\<lambda>py_exe.
              install_sequence w py_exe break_system_flag)))"

definition install_main :: "world \<Rightarrow> unit io" where
  "install_main w =
     io_then (console_print_panel installer_banner None (Some ''purple''))
       (io_bind (select_mode w) (\<lambda>(use_venv, use_brek). install_steps w use_venv use_brek))"

subsection \<open>uninstall.py\<close>

definition PYTHON_PACKAGES :: "string list" where
  "PYTHON_PACKAGES = [''ghost'', ''adb-shell'', ''pex'', ''badges'', ''colorscript'']"

definition DEFAULT_VENV :: "world \<Rightarrow> path" where
  "DEFAULT_VENV w = joinpath (ROOT w) ''.venv''"

definition uninstall_run :: "world \<Rightarrow> string list \<Rightarrow> bool \<Rightarrow> unit io" where
  "uninstall_run w cmd check =
     io_then (console_log (''[bold purple]$[/bold purple] '' @ join '' '' cmd))
     (io_bind (subprocess_run_inherit w cmd) (\<lambda>res_returncode.
        if check \<and> res_returncode \<noteq> 0 then
          console_print_panel (''[red]Command failed: '' @ join '' '' cmd @ ''[/red]'') None None
        else io_return ()))"

text \<open>The body of the \<^verbatim>\<open>for pkg in PYTHON_PACKAGES\<close> loop, over the packages still to do.\<close>

fun uninstall_loop :: "world \<Rightarrow> string \<Rightarrow> bool \<Rightarrow> string list \<Rightarrow> unit io" where
  "uninstall_loop w python_exe break_system [] = io_return ()"
| "uninstall_loop w python_exe break_system (pkg # pkgs) =
     io_then (console_print_panel (''Uninstalling package: [bold]'' @ pkg @ ''[/bold]'') None None)
    (io_then
       (let cmd = [python_exe, ''-m'', ''pip'', ''uninstall'', ''-y'', pkg];
            cmd = (if break_system then cmd @ [''--break-system-packages''] else cmd)
        in uninstall_run w cmd True)
       (uninstall_loop w python_exe break_system pkgs))"

definition uninstall_packages :: "world \<Rightarrow> string \<Rightarrow> bool \<Rightarrow> unit io" where
  "uninstall_packages w python_exe break_system =
     uninstall_loop w python_exe break_system PYTHON_PACKAGES"

definition remove_virtualenv :: "world \<Rightarrow> path \<Rightarrow> unit io" where
  "remove_virtualenv w venv_path =
     io_bind (exists w venv_path) (\<lambda>there.
       if there then
         io_then (console_print_panel (''Removing virtualenv: [bold]'' @ path_str (os_name w) venv_path
                                         @ ''[/bold]'') None None)
        (io_then (rmtree venv_path)
           (console_print_panel ''[green]Virtualenv removed.[/green]'' None None))
       else console_print_panel ''[yellow]No virtualenv found.[/yellow]'' None None)"

definition uninstaller_banner :: string where
  "uninstaller_banner =
     ''[bold purple]Ghost Uninstaller[/bold purple]'' @ [CHR 0x0A] @ ''Index 99 ''
       @ [CHR 0xE2, CHR 0x86, CHR 0x92] @ '' Return to Menu / Exit''"

definition venv_question :: "world \<Rightarrow> string" where
  "venv_question w =
     ''Detected virtualenv at '' @ path_str (os_name w) (DEFAULT_VENV w) @ ''. Remove it?''"

definition system_question :: string where
  "system_question = ''Do you want to uninstall Ghost Python packages from system interpreter?''"

definition uninstall_completed :: string where
  "uninstall_completed = ''[bold green]Uninstall process completed.[/bold green]''"

definition uninstall_main :: "world \<Rightarrow> unit io" where
  "uninstall_main w =
     io_then (console_print_panel uninstaller_banner None None)
    (io_then
       (io_bind (exists w (DEFAULT_VENV w)) (\<lambda>there.
          if there then
            io_bind (Confirm_ask w (venv_question w) True) (\<lambda>use_venv.
              if use_venv then remove_virtualenv w (DEFAULT_VENV w) else io_return ())
          else io_return ()))
    (io_bind (Confirm_ask w system_question False) (\<lambda>uninstall_system.
       io_then
         (if uninstall_system then uninstall_packages w (sys_executable w) True
          else io_return ())
         (console_print_panel uninstall_completed None None))))"

subsection \<open>Reading a trace\<close>

text \<open>The argument lists of the commands that were started, in order.\<close>

fun spawned :: "event list \<Rightarrow> string list list" where
  "spawned [] = []"
| "spawned (Spawn cmd rc captured # es) = cmd # spawned es"
| "spawned (e # es) = spawned es"

text \<open>The texts the script wrote to the console, in order.\<close>

fun shown :: "event list \<Rightarrow> string list" where
  "shown [] = []"
| "shown (Log text # es) = text # shown es"
| "shown (Print text # es) = text # shown es"
| "shown (PrintPanel body title style # es) = body # shown es"
| "shown (e # es) = shown es"

text \<open>Some text on the console has \<open>x\<close> as a substring.\<close>

definition presents :: "string \<Rightarrow> event list \<Rightarrow> bool" where
  "presents x tr = list_ex (\<lambda>text. contains text x) (shown tr)"

fun is_prompt :: "event \<Rightarrow> bool" where
  "is_prompt (PromptAsk prompt choices dflt a) = True"
| "is_prompt (ConfirmAsk prompt dflt a) = True"
| "is_prompt e = False"

text \<open>A command that ended with a non-zero exit code.\<close>

fun spawn_failed :: "event \<Rightarrow> bool" where
  "spawn_failed (Spawn cmd rc captured) = (rc \<noteq> 0)"
| "spawn_failed e = False"

text \<open>
  The data model of the specification names three install modes. The source keeps the two
  booleans \<^verbatim>\<open>use_venv\<close> and \<^verbatim>\<open>use_brek\<close>; the mode is read off them by the environment
  the run targets: \<^verbatim>\<open>main\<close> calls \<^verbatim>\<open>ensure_virtualenv\<close> exactly when \<^verbatim>\<open>use_venv\<close> holds.
\<close>

datatype install_mode = UseVirtualEnv | FilteredSystemOnly | DirectSystem

definition install_mode_of :: "bool \<Rightarrow> bool \<Rightarrow> install_mode" where
  "install_mode_of use_venv use_brek =
     (if use_venv then UseVirtualEnv else if use_brek then FilteredSystemOnly else DirectSystem)"

text \<open>A package specifier that names a version-control location (\<^verbatim>\<open>name @ git+URL\<close>).\<close>

definition is_vcs_spec :: "string \<Rightarrow> bool" where
  "is_vcs_spec spec = contains spec ''git+''"

text \<open>What a \<open>Spawn\<close> event records.\<close>

fun argv_of :: "event \<Rightarrow> string list" where
  "argv_of (Spawn cmd rc captured) = cmd"
| "argv_of e = []"

fun returncode_of :: "event \<Rightarrow> int" where
  "returncode_of (Spawn cmd rc captured) = rc"
| "returncode_of e = 0"

fun stderr_of :: "event \<Rightarrow> string" where
  "stderr_of (Spawn cmd rc (Some err)) = err"
| "stderr_of e = []"

text \<open>The event is \<^verbatim>\<open>Confirm.ask\<close> with the question \<open>q\<close>.\<close>

fun asks :: "string \<Rightarrow> event \<Rightarrow> bool" where
  "asks q (ConfirmAsk prompt dflt a) = (prompt = q)"
| "asks q e = False"

text \<open>The events that the loop of \<^verbatim>\<open>uninstall_packages\<close> can add to the trace.\<close>

fun loop_event :: "event \<Rightarrow> bool" where
  "loop_event (Log msg) = True"
| "loop_event (PrintPanel body title style) =
     (starts_with body ''Uninstalling package: '' \<or> starts_with body ''[red]Command failed: '')"
| "loop_event (Spawn cmd rc captured) = (captured = None)"
| "loop_event e = False"

text \<open>A command of the form \<^verbatim>\<open><interpreter> -m pip install ...\<close>.\<close>

definition is_pip_install :: "string list \<Rightarrow> bool" where
  "is_pip_install cmd = (take 3 (tl cmd) = [''-m'', ''pip'', ''install''])"

text \<open>
  A command that fits the mode: a \<^verbatim>\<open>pip install\<close> command ends with
  \<^verbatim>\<open>--break-system-packages\<close> exactly when the mode is not \<open>UseVirtualEnv\<close>, and is run
  by the virtualenv's interpreter when the mode is \<open>UseVirtualEnv\<close> and by the running
  interpreter otherwise; any other command is the creation of the virtualenv, in the mode
  \<open>UseVirtualEnv\<close>.
\<close>

definition mode_command :: "world \<Rightarrow> install_mode \<Rightarrow> string list \<Rightarrow> bool" where
  "mode_command w mode cmd =
     (if is_pip_install cmd then
        (last cmd = ''--break-system-packages'') = (mode \<noteq> UseVirtualEnv)
        \<and> hd cmd = (if mode = UseVirtualEnv
                    then fst (venv_executables w (parse_path w (venv (cli w))))
                    else sys_executable w)
      else
        mode = UseVirtualEnv
        \<and> cmd = [sys_executable w, ''-m'', ''venv'',
                  path_str (os_name w) (parse_path w (venv (cli w)))])"

text \<open>The events that lines 131 to 153 of \<^verbatim>\<open>main\<close> can add to the trace.\<close>

fun steps_event :: "world \<Rightarrow> install_mode \<Rightarrow> event \<Rightarrow> bool" where
  "steps_event w mode (Log text) = True"
| "steps_event w mode (Print text) = True"
| "steps_event w mode (PrintPanel body title style) = True"
| "steps_event w mode (PathExists p a) = (mode = UseVirtualEnv \<and> p = parse_path w (venv (cli w)))"
| "steps_event w mode (Spawn cmd rc captured) = (captured \<noteq> None \<and> mode_command w mode cmd)"
| "steps_event w mode e = False"

text \<open>
  The trace of an installer run that was aborted by the exception \<open>e\<close>: every command
  before the last one ended with exit code 0, the last command did not, the only event after
  it is the error panel with its stripped standard error, and \<open>e\<close> is the
  \<^verbatim>\<open>SystemExit\<close> naming that command and its exit code.
\<close>

definition aborted :: "exn \<Rightarrow> event list \<Rightarrow> bool" where
  "aborted e tr =
     (2 \<le> length tr \<and> \<not> list_ex spawn_failed (butlast (butlast tr))
      \<and> spawn_failed (last (butlast tr))
      \<and> last tr = PrintPanel (''[red]Error:[/red] '' @ strip (stderr_of (last (butlast tr))))
                     (Some ''Installation Error'') None
      \<and> e = SystemExit (''Command failed: '' @ join '' '' (argv_of (last (butlast tr)))
                          @ '' (exit '' @ str_int (returncode_of (last (butlast tr))) @ '')''))"

text \<open>
  The trace of an installer run that went through: no command failed, and the last two
  events are the completion panel and the closing line.
\<close>

definition completed :: "event list \<Rightarrow> bool" where
  "completed tr =
     (2 \<le> length tr \<and> \<not> list_ex spawn_failed tr
      \<and> last (butlast tr)
          = PrintPanel ''[bold green]Installation completed successfully![/bold green]'' None None
      \<and> last tr = Print ''You can now run: ghost'')"

subsection \<open>Reasoning about runs\<close>

text \<open>
  \<open>wp m Q E tr\<close>: started on the trace \<open>tr\<close>, the computation \<open>m\<close> either returns \<open>x\<close>
  with a trace satisfying \<open>Q x\<close>, or raises \<open>e\<close> with a trace satisfying \<open>E e\<close>.
\<close>

definition wp :: "'a io \<Rightarrow> ('a \<Rightarrow> event list \<Rightarrow> bool) \<Rightarrow> (exn \<Rightarrow> event list \<Rightarrow> bool)
                   \<Rightarrow> event list \<Rightarrow> bool" where
  "wp m Q E tr = (case m tr of (Inl e, tr') \<Rightarrow> E e tr' | (Inr x, tr') \<Rightarrow> Q x tr')"

subsection \<open>Sample worlds\<close>

text \<open>
  A POSIX machine on which nothing exists, every command succeeds silently, the operator
  picks \<^verbatim>\<open>venv\<close> and answers no; the installer is started without flags.
\<close>

definition posix_world :: world where
  "posix_world =
     \<lparr>cli = \<lparr>no_venv = False, venv = ''.venv'', brek = False, yes = False\<rparr>,
      os_name = ''posix'',
      sys_executable = ''/usr/bin/python3'',
      ROOT = Path ''/'' [''opt'', ''Ghost''],
      parse_path = (\<lambda>s. Path [] [s]),
      path_exists = (\<lambda>t p. False),
      prompt_answer = (\<lambda>t. ''venv''),
      confirm_answer = (\<lambda>t q. False),
      proc = (\<lambda>t cmd. (0, []))\<rparr>"

text \<open>\<^verbatim>\<open>install.py --brek\<close>, on a machine where \<^verbatim>\<open>.venv\<close> exists.\<close>

definition brek_flag_world :: world where
  "brek_flag_world =
     posix_world\<lparr>cli := \<lparr>no_venv = False, venv = ''.venv'', brek = True, yes = False\<rparr>,
                 path_exists := (\<lambda>t p. True)\<rparr>"

text \<open>\<^verbatim>\<open>install.py\<close>, the operator picking \<^verbatim>\<open>brek\<close> at the prompt.\<close>

definition brek_choice_world :: world where
  "brek_choice_world = posix_world\<lparr>prompt_answer := (\<lambda>t. ''brek'')\<rparr>"

text \<open>\<^verbatim>\<open>install.py --no-venv --yes\<close>.\<close>

definition no_venv_yes_world :: world where
  "no_venv_yes_world =
     posix_world\<lparr>cli := \<lparr>no_venv = True, venv = ''.venv'', brek = False, yes = True\<rparr>\<rparr>"

text \<open>\<^verbatim>\<open>install.py --no-venv\<close>.\<close>

definition no_venv_world :: world where
  "no_venv_world =
     posix_world\<lparr>cli := \<lparr>no_venv = True, venv = ''.venv'', brek = False, yes = False\<rparr>\<rparr>"

text \<open>\<^verbatim>\<open>install.py --yes\<close>.\<close>

definition yes_world :: world where
  "yes_world =
     posix_world\<lparr>cli := \<lparr>no_venv = False, venv = ''.venv'', brek = False, yes = True\<rparr>\<rparr>"

text \<open>
  \<^verbatim>\<open>install.py --yes\<close> where the dependency step fails: \<^verbatim>\<open>pip install\<close> of anything but
  \<^verbatim>\<open>pip\<close> itself ends with exit code 1 and a message on standard error.
\<close>

definition failing_world :: world where
  "failing_world =
     yes_world\<lparr>proc := (\<lambda>t cmd. if is_pip_install cmd \<and> \<not> list_ex (\<lambda>a. a = ''--upgrade'') cmd
                                 then (1, ''  fatal: unable to access repository'' @ [CHR 0x0A])
                                 else (0, []))\<rparr>"

text \<open>A Windows machine, \<^verbatim>\<open>install.py --yes --venv env\<close>, the directory \<^verbatim>\<open>env\<close> present.\<close>

definition windows_world :: world where
  "windows_world =
     posix_world\<lparr>cli := \<lparr>no_venv = False, venv = ''env'', brek = False, yes = True\<rparr>,
                 os_name := ''nt'',
                 sys_executable := ''C:'' @ [CHR 0x5C] @ ''Python312'' @ [CHR 0x5C] @ ''python.exe'',
                 path_exists := (\<lambda>t p. True)\<rparr>"

text \<open>
  The uninstaller on a machine without the default virtualenv; the operator confirms the
  removal of the packages, and uninstalling \<^verbatim>\<open>pex\<close> ends with exit code 2.
\<close>

definition pex_fails_world :: world where
  "pex_fails_world =
     posix_world\<lparr>confirm_answer := (\<lambda>t q. True),
                 proc := (\<lambda>t cmd. if list_ex (\<lambda>a. a = ''pex'') cmd then (2, ''boom'') else (0, []))\<rparr>"

section \<open>Properties\<close>

subsection \<open>Rules for \<open>wp\<close>\<close>

lemma wp_return [simp]: "wp (io_return x) Q E tr = Q x tr"
  by (simp add: wp_def io_return_def)

lemma wp_raise [simp]: "wp (io_raise e) Q E tr = E e tr"
  by (simp add: wp_def io_raise_def)

lemma wp_emit [simp]: "wp (emit e) Q E tr = Q () (tr @ [e])"
  by (simp add: wp_def emit_def)

lemma wp_bind: "wp (io_bind m f) Q E tr = wp m (\<lambda>x. wp (f x) Q E) E tr"
  by (simp add: wp_def io_bind_def split: prod.splits sum.splits)

lemma wp_then: "wp (io_then m k) Q E tr = wp m (\<lambda>_. wp k Q E) E tr"
  by (simp add: io_then_def wp_bind)

lemma wp_mono:
  assumes "wp m Q E tr"
    and "\<And>x tr'. Q x tr' \<Longrightarrow> Q' x tr'"
    and "\<And>e tr'. E e tr' \<Longrightarrow> E' e tr'"
  shows "wp m Q' E' tr"
  using assms by (auto simp: wp_def split: prod.splits sum.splits)

lemma wp_bindI:
  assumes "wp m R E tr" and "\<And>x tr'. R x tr' \<Longrightarrow> wp (f x) Q E tr'"
  shows "wp (io_bind m f) Q E tr"
  unfolding wp_bind using assms(1) by (rule wp_mono) (auto intro: assms(2))

lemma wp_thenI:
  assumes "wp m R E tr" and "\<And>x tr'. R x tr' \<Longrightarrow> wp k Q E tr'"
  shows "wp (io_then m k) Q E tr"
  unfolding io_then_def using assms by (rule wp_bindI)

lemma wp_console [simp]:
  "wp (console_log text) Q E tr = Q () (tr @ [Log text])"
  "wp (console_print text) Q E tr = Q () (tr @ [Print text])"
  "wp (console_print_panel body title style) Q E tr = Q () (tr @ [PrintPanel body title style])"
  by (simp_all add: console_log_def console_print_def console_print_panel_def)

lemma wp_rmtree [simp]: "wp (rmtree p) Q E tr = Q () (tr @ [Rmtree p])"
  by (simp add: rmtree_def)

lemma wp_exists [simp]:
  "wp (exists w p) Q E tr
     = Q (path_exists w (length tr) p) (tr @ [PathExists p (path_exists w (length tr) p)])"
  by (simp add: wp_def exists_def Let_def)

lemma wp_Prompt_ask [simp]:
  "wp (Prompt_ask w prompt choices dflt) Q E tr
     = Q (prompt_answer w (length tr))
         (tr @ [PromptAsk prompt choices dflt (prompt_answer w (length tr))])"
  by (simp add: wp_def Prompt_ask_def Let_def)

lemma wp_Confirm_ask [simp]:
  "wp (Confirm_ask w prompt dflt) Q E tr
     = Q (confirm_answer w (length tr) prompt)
         (tr @ [ConfirmAsk prompt dflt (confirm_answer w (length tr) prompt)])"
  by (simp add: wp_def Confirm_ask_def Let_def)

subsection \<open>The two command runners\<close>

lemma install_run_eq:
  "install_run w cmd check tr =
     (if fst (proc w (Suc (length tr)) cmd) = 0 then
        (Inr (), tr @ [Log (''[bold purple]$[/bold purple] '' @ join '' '' cmd),
                       Spawn cmd 0 (Some (snd (proc w (Suc (length tr)) cmd)))])
      else
        (if check then
           Inl (SystemExit (''Command failed: '' @ join '' '' cmd @ '' (exit ''
                              @ str_int (fst (proc w (Suc (length tr)) cmd)) @ '')''))
         else Inr (),
         tr @ [Log (''[bold purple]$[/bold purple] '' @ join '' '' cmd),
               Spawn cmd (fst (proc w (Suc (length tr)) cmd)) (Some (snd (proc w (Suc (length tr)) cmd))),
               PrintPanel (''[red]Error:[/red] '' @ strip (snd (proc w (Suc (length tr)) cmd)))
                 (Some ''Installation Error'') None]))"
  by (simp add: install_run_def io_then_def io_bind_def console_log_def emit_def
      subprocess_run_captured_def console_print_panel_def io_raise_def io_return_def Let_def)

lemma wp_install_run:
  "wp (install_run w cmd True) Q E tr =
     (if fst (proc w (Suc (length tr)) cmd) = 0 then
        Q () (tr @ [Log (''[bold purple]$[/bold purple] '' @ join '' '' cmd),
                    Spawn cmd 0 (Some (snd (proc w (Suc (length tr)) cmd)))])
      else
        E (SystemExit (''Command failed: '' @ join '' '' cmd @ '' (exit ''
                         @ str_int (fst (proc w (Suc (length tr)) cmd)) @ '')''))
          (tr @ [Log (''[bold purple]$[/bold purple] '' @ join '' '' cmd),
                 Spawn cmd (fst (proc w (Suc (length tr)) cmd)) (Some (snd (proc w (Suc (length tr)) cmd))),
                 PrintPanel (''[red]Error:[/red] '' @ strip (snd (proc w (Suc (length tr)) cmd)))
                   (Some ''Installation Error'') None]))"
  by (simp add: wp_def install_run_eq)

lemma uninstall_run_eq:
  "uninstall_run w cmd check tr =
     (Inr (),
      tr @ [Log (''[bold purple]$[/bold purple] '' @ join '' '' cmd),
            Spawn cmd (fst (proc w (Suc (length tr)) cmd)) None]
         @ (if check \<and> fst (proc w (Suc (length tr)) cmd) \<noteq> 0
            then [PrintPanel (''[red]Command failed: '' @ join '' '' cmd @ ''[/red]'') None None]
            else []))"
  by (simp add: uninstall_run_def io_then_def io_bind_def console_log_def emit_def
      subprocess_run_inherit_def console_print_panel_def io_return_def Let_def)

lemma wp_uninstall_run:
  "wp (uninstall_run w cmd check) Q E tr =
     Q () (tr @ [Log (''[bold purple]$[/bold purple] '' @ join '' '' cmd),
                 Spawn cmd (fst (proc w (Suc (length tr)) cmd)) None]
              @ (if check \<and> fst (proc w (Suc (length tr)) cmd) \<noteq> 0
                 then [PrintPanel (''[red]Command failed: '' @ join '' '' cmd @ ''[/red]'') None None]
                 else []))"
  by (simp add: wp_def uninstall_run_eq)

lemma install_main_eq:
  "install_main w [] =
     (case select_mode w [PrintPanel installer_banner None (Some ''purple'')] of
        (Inl e, tr) \<Rightarrow> (Inl e, tr)
      | (Inr (use_venv, use_brek), tr) \<Rightarrow> install_steps w use_venv use_brek tr)"
  by (simp add: install_main_def io_then_def io_bind_def console_print_panel_def emit_def
      split: prod.splits sum.splits)

lemma spawned_append [simp]: "spawned (xs @ ys) = spawned xs @ spawned ys"
  by (induction xs rule: spawned.induct) simp_all

lemma shown_append [simp]: "shown (xs @ ys) = shown xs @ shown ys"
  by (induction xs rule: shown.induct) simp_all

subsection \<open>Failing steps of the installer\<close>

lemma install_run_fail_fast:
  "\<not> list_ex spawn_failed tr \<Longrightarrow>
   wp (install_run w cmd True) (\<lambda>_ tr'. \<not> list_ex spawn_failed tr') aborted tr"
  by (simp add: wp_install_run aborted_def butlast_append)

lemma ensure_virtualenv_fail_fast:
  assumes "\<not> list_ex spawn_failed tr"
  shows "wp (ensure_virtualenv w p) (\<lambda>_ tr'. \<not> list_ex spawn_failed tr') aborted tr"
  unfolding ensure_virtualenv_def
  apply (rule wp_thenI [where R = "\<lambda>_ tr'. \<not> list_ex spawn_failed tr'"])
   apply (simp add: assms wp_bind wp_then install_run_fail_fast)
  apply simp
  done

lemma install_packages_fail_fast:
  "\<not> list_ex spawn_failed tr \<Longrightarrow>
   wp (install_packages w py_exe packages break_system) (\<lambda>_ tr'. \<not> list_ex spawn_failed tr') aborted tr"
  by (simp add: install_packages_def Let_def install_run_fail_fast)

lemma install_local_package_fail_fast:
  "\<not> list_ex spawn_failed tr \<Longrightarrow>
   wp (install_local_package w py_exe break_system) (\<lambda>_ tr'. \<not> list_ex spawn_failed tr') aborted tr"
  by (simp add: install_local_package_def Let_def install_run_fail_fast)

lemma select_mode_no_spawn:
  "\<not> list_ex spawn_failed tr \<Longrightarrow> wp (select_mode w) (\<lambda>_ tr'. \<not> list_ex spawn_failed tr') E tr"
  by (simp add: select_mode_def Let_def wp_bind)

lemma resolve_target_fail_fast:
  assumes "\<not> list_ex spawn_failed tr"
  shows "wp (resolve_target w use_venv) (\<lambda>_ tr'. \<not> list_ex spawn_failed tr') aborted tr"
proof (cases use_venv)
  case True
  have "wp (ensure_virtualenv w (parse_path w (venv (cli w))))
          (\<lambda>x. wp (case x of (py_exe, pip_exe) \<Rightarrow> io_return py_exe)
                  (\<lambda>_ tr'. \<not> list_ex spawn_failed tr') aborted) aborted tr"
    using ensure_virtualenv_fail_fast [OF assms] by (rule wp_mono) (simp_all add: split_def)
  with True show ?thesis by (simp add: resolve_target_def wp_bind)
next
  case False
  with assms show ?thesis by (simp add: resolve_target_def)
qed

lemma install_sequence_fail_fast:
  assumes "\<not> list_ex spawn_failed tr"
  shows "wp (install_sequence w py_exe break_system_flag) (\<lambda>_. completed) aborted tr"
  unfolding install_sequence_def Let_def
  apply (rule wp_thenI [where R = "\<lambda>_ tr'. \<not> list_ex spawn_failed tr'"])
   apply (simp add: assms)
  apply (rule wp_thenI [where R = "\<lambda>_ tr'. \<not> list_ex spawn_failed tr'"])
   apply (rule install_run_fail_fast, assumption)
  apply (rule wp_thenI [where R = "\<lambda>_ tr'. \<not> list_ex spawn_failed tr'"])
   apply simp
  apply (rule wp_thenI [where R = "\<lambda>_ tr'. \<not> list_ex spawn_failed tr'"])
   apply (rule install_packages_fail_fast, assumption)
  apply (rule wp_thenI [where R = "\<lambda>_ tr'. \<not> list_ex spawn_failed tr'"])
   apply simp
  apply (rule wp_thenI [where R = "\<lambda>_ tr'. \<not> list_ex spawn_failed tr'"])
   apply (rule install_local_package_fail_fast, assumption)
  apply (simp add: wp_then completed_def butlast_append)
  done

lemma install_steps_fail_fast:
  assumes "\<not> list_ex spawn_failed tr"
  shows "wp (install_steps w use_venv use_brek) (\<lambda>_. completed) aborted tr"
  unfolding install_steps_def Let_def
  apply (rule wp_thenI [where R = "\<lambda>_ tr'. \<not> list_ex spawn_failed tr'"])
   apply (simp add: assms)
  apply (rule wp_bindI [where R = "\<lambda>_ tr'. \<not> list_ex spawn_failed tr'"])
   apply (erule resolve_target_fail_fast)
  apply (erule install_sequence_fail_fast)
  done

lemma install_main_fail_fast: "wp (install_main w) (\<lambda>_. completed) aborted []"
  unfolding install_main_def
  apply (rule wp_thenI [where R = "\<lambda>_ tr'. \<not> list_ex spawn_failed tr'"])
   apply simp
  apply (rule wp_bindI [where R = "\<lambda>_ tr'. \<not> list_ex spawn_failed tr'"])
   apply (rule select_mode_no_spawn, assumption)
  apply (simp add: split_def install_steps_fail_fast)
  done

lemma aborted_has_failure: "aborted e tr \<Longrightarrow> list_ex spawn_failed tr"
proof -
  assume a: "aborted e tr"
  then have len: "2 \<le> length tr" and f: "spawn_failed (last (butlast tr))"
    by (simp_all add: aborted_def)
  from len have "butlast tr \<noteq> []" by (cases tr) auto
  then have "last (butlast tr) \<in> set (butlast tr)" by simp
  then have "last (butlast tr) \<in> set tr" by (rule in_set_butlastD)
  with f show ?thesis by (auto simp: list_ex_iff)
qed

text \<open>
  Claim C4. A call of the installer's \<^verbatim>\<open>run\<close> with \<^verbatim>\<open>check\<close> set returns normally,
  printing no panel, when the command's exit code is 0, and otherwise prints the panel with
  the stripped captured standard error and raises \<^verbatim>\<open>SystemExit\<close>. In a whole run of
  \<^verbatim>\<open>main\<close>, either some command failed, and then the run ended with a non-zero status, the
  failing command is the last one started and its error panel is the last event, so no later
  step ran; or no command failed, and then the run ended with status 0, the completion panel
  and the closing line being its last two events.
\<close>

theorem install_required_step_failure_aborts:
  "install_run w cmd True tr =
     (if fst (proc w (Suc (length tr)) cmd) = 0 then
        (Inr (), tr @ [Log (''[bold purple]$[/bold purple] '' @ join '' '' cmd),
                       Spawn cmd 0 (Some (snd (proc w (Suc (length tr)) cmd)))])
      else
        (Inl (SystemExit (''Command failed: '' @ join '' '' cmd @ '' (exit ''
                            @ str_int (fst (proc w (Suc (length tr)) cmd)) @ '')'')),
         tr @ [Log (''[bold purple]$[/bold purple] '' @ join '' '' cmd),
               Spawn cmd (fst (proc w (Suc (length tr)) cmd)) (Some (snd (proc w (Suc (length tr)) cmd))),
               PrintPanel (''[red]Error:[/red] '' @ strip (snd (proc w (Suc (length tr)) cmd)))
                 (Some ''Installation Error'') None]))
   \<and> (case install_main w [] of
        (Inl e, tr') \<Rightarrow> list_ex spawn_failed tr' \<and> aborted e tr' \<and> exit_status (Inl e) = 1
      | (Inr u, tr') \<Rightarrow> \<not> list_ex spawn_failed tr' \<and> completed tr' \<and> exit_status (Inr u) = 0)"
proof
  show "install_run w cmd True tr =
     (if fst (proc w (Suc (length tr)) cmd) = 0 then
        (Inr (), tr @ [Log (''[bold purple]$[/bold purple] '' @ join '' '' cmd),
                       Spawn cmd 0 (Some (snd (proc w (Suc (length tr)) cmd)))])
      else
        (Inl (SystemExit (''Command failed: '' @ join '' '' cmd @ '' (exit ''
                            @ str_int (fst (proc w (Suc (length tr)) cmd)) @ '')'')),
         tr @ [Log (''[bold purple]$[/bold purple] '' @ join '' '' cmd),
               Spawn cmd (fst (proc w (Suc (length tr)) cmd)) (Some (snd (proc w (Suc (length tr)) cmd))),
               PrintPanel (''[red]Error:[/red] '' @ strip (snd (proc w (Suc (length tr)) cmd)))
                 (Some ''Installation Error'') None]))"
    by (simp add: install_run_eq)
next
  obtain r tr' where run: "install_main w [] = (r, tr')"
    by (cases "install_main w []")
  show "case install_main w [] of
        (Inl e, tr') \<Rightarrow> list_ex spawn_failed tr' \<and> aborted e tr' \<and> exit_status (Inl e) = 1
      | (Inr u, tr') \<Rightarrow> \<not> list_ex spawn_failed tr' \<and> completed tr' \<and> exit_status (Inr u) = 0"
  proof (cases r)
    case (Inl e)
    with run install_main_fail_fast [of w] have "aborted e tr'"
      by (simp add: wp_def)
    with run Inl show ?thesis
      by (cases e) (simp add: aborted_has_failure)
  next
    case (Inr u)
    with run install_main_fail_fast [of w] have "completed tr'"
      by (simp add: wp_def)
    with run Inr show ?thesis
      by (simp add: completed_def)
  qed
qed

theorem install_required_step_failure_aborts_witness:
  "fst (install_main failing_world []) = Inl (SystemExit (''Command failed: .venv/bin/python -m pip install badges @ git+https://github.com/EntySec/Badges pex @ git+https://github.com/EntySec/Pex colorscript @ git+https://github.com/EntySec/ColorScript adb-shell>=0.1.0 rich>=10.0 (exit 1)''))
   \<and> aborted (SystemExit (''Command failed: .venv/bin/python -m pip install badges @ git+https://github.com/EntySec/Badges pex @ git+https://github.com/EntySec/Pex colorscript @ git+https://github.com/EntySec/ColorScript adb-shell>=0.1.0 rich>=10.0 (exit 1)'')) (snd (install_main failing_world []))
   \<and> last (snd (install_main failing_world []))
       = PrintPanel ''[red]Error:[/red] fatal: unable to access repository'' (Some ''Installation Error'') None
   \<and> length (spawned (snd (install_main failing_world []))) = 3
   \<and> fst (install_main yes_world []) = Inr ()
   \<and> completed (snd (install_main yes_world []))
   \<and> length (spawned (snd (install_main yes_world []))) = 4"
proof -
  have f: "fst (install_main failing_world []) = Inl (SystemExit (''Command failed: .venv/bin/python -m pip install badges @ git+https://github.com/EntySec/Badges pex @ git+https://github.com/EntySec/Pex colorscript @ git+https://github.com/EntySec/ColorScript adb-shell>=0.1.0 rich>=10.0 (exit 1)''))"
    by code_simp
  have l: "last (snd (install_main failing_world []))
       = PrintPanel ''[red]Error:[/red] fatal: unable to access repository'' (Some ''Installation Error'') None"
    by code_simp
  have n: "length (spawned (snd (install_main failing_world []))) = 3"
    by code_simp
  have g: "fst (install_main yes_world []) = Inr ()"
    by code_simp
  have m: "length (spawned (snd (install_main yes_world []))) = 4"
    by code_simp
  from f install_required_step_failure_aborts [of failing_world "[]" "[]"]
  have a: "aborted (SystemExit (''Command failed: .venv/bin/python -m pip install badges @ git+https://github.com/EntySec/Badges pex @ git+https://github.com/EntySec/Pex colorscript @ git+https://github.com/EntySec/ColorScript adb-shell>=0.1.0 rich>=10.0 (exit 1)'')) (snd (install_main failing_world []))"
    by (cases "install_main failing_world []") simp
  from g install_required_step_failure_aborts [of yes_world "[]" "[]"]
  have c: "completed (snd (install_main yes_world []))"
    by (cases "install_main yes_world []") simp
  from f a l n g c m show ?thesis by simp
qed

subsection \<open>Events of the installer's steps\<close>

text \<open>
  A property of traces that survives every event the steps can add holds after them,
  whether they return or raise.
\<close>

lemma install_run_invariant:
  assumes step: "\<And>tr e. I tr \<Longrightarrow> steps_event w mode e \<Longrightarrow> I (tr @ [e])"
    and cmd: "mode_command w mode cmd"
    and init: "I tr"
  shows "wp (install_run w cmd True) (\<lambda>_. I) (\<lambda>_. I) tr"
proof -
  have a: "I (tr @ [Log t])" for t
    using init by (rule step) simp
  have b: "I ((tr @ [Log t]) @ [Spawn cmd rc (Some err)])" for t rc err
    using a by (rule step) (simp add: cmd)
  have c: "I (((tr @ [Log t]) @ [Spawn cmd rc (Some err)]) @ [PrintPanel body title style])"
    for t rc err body title style
    using b by (rule step) simp
  show ?thesis
    using b c by (simp add: wp_install_run)
qed

lemma ensure_virtualenv_invariant:
  assumes step: "\<And>tr e. I tr \<Longrightarrow> steps_event w UseVirtualEnv e \<Longrightarrow> I (tr @ [e])"
    and init: "I tr"
  shows "wp (ensure_virtualenv w (parse_path w (venv (cli w))))
           (\<lambda>x tr'. x = venv_executables w (parse_path w (venv (cli w))) \<and> I tr') (\<lambda>_. I) tr"
proof -
  let ?p = "parse_path w (venv (cli w))"
  have a: "I (tr @ [PathExists ?p there])" for there
    using init by (rule step) simp
  have b: "I (tr @ [PathExists ?p there, PrintPanel body title style])" for there body title style
    using a [of there] step [of "tr @ [PathExists ?p there]" "PrintPanel body title style"] by simp
  have c: "mode_command w UseVirtualEnv [sys_executable w, ''-m'', ''venv'', path_str (os_name w) ?p]"
    by (simp add: mode_command_def is_pip_install_def)
  have d: "wp (install_run w [sys_executable w, ''-m'', ''venv'', path_str (os_name w) ?p] True)
             (\<lambda>_. I) (\<lambda>_. I) (tr @ [PathExists ?p there, PrintPanel body title style])"
    for there body title style
    using step c b by (rule install_run_invariant)
  have "wp (io_bind (exists w ?p) (\<lambda>there.
          if there then
            console_print_panel (''Using existing virtualenv: [bold]'' @ path_str (os_name w) ?p
                                   @ ''[/bold]'') (Some ''Virtualenv'') None
          else
            io_then
              (console_print_panel (''Creating virtualenv at: [bold]'' @ path_str (os_name w) ?p
                                      @ ''[/bold]'') (Some ''Virtualenv'') None)
              (install_run w [sys_executable w, ''-m'', ''venv'', path_str (os_name w) ?p] True)))
         (\<lambda>_. I) (\<lambda>_. I) tr"
    by (simp add: wp_bind wp_then b d)
  then show ?thesis
    unfolding ensure_virtualenv_def by (rule wp_thenI) simp
qed

lemma resolve_target_invariant:
  assumes step: "\<And>tr e. I tr \<Longrightarrow> steps_event w (install_mode_of use_venv use_brek) e \<Longrightarrow> I (tr @ [e])"
    and init: "I tr"
  shows "wp (resolve_target w use_venv)
           (\<lambda>py_exe tr'. py_exe = (if use_venv then fst (venv_executables w (parse_path w (venv (cli w))))
                                    else sys_executable w) \<and> I tr')
           (\<lambda>_. I) tr"
proof (cases use_venv)
  case True
  then have s: "\<And>tr e. I tr \<Longrightarrow> steps_event w UseVirtualEnv e \<Longrightarrow> I (tr @ [e])"
    using step by (simp add: install_mode_of_def)
  have "wp (ensure_virtualenv w (parse_path w (venv (cli w))))
          (\<lambda>x. wp (case x of (py_exe, pip_exe) \<Rightarrow> io_return py_exe)
             (\<lambda>py_exe tr'. py_exe = fst (venv_executables w (parse_path w (venv (cli w)))) \<and> I tr')
             (\<lambda>_. I))
          (\<lambda>_. I) tr"
    using ensure_virtualenv_invariant [where I = I, OF s init]
    by (rule wp_mono) (simp_all add: split_def)
  with True show ?thesis by (simp add: resolve_target_def wp_bind)
next
  case False
  with init show ?thesis by (simp add: resolve_target_def)
qed

lemma pip_commands_fit:
  fixes w use_venv use_brek
  defines "py \<equiv> (if use_venv then fst (venv_executables w (parse_path w (venv (cli w))))
                  else sys_executable w)"
  shows "mode_command w (install_mode_of use_venv use_brek)
           (if \<not> use_venv then [py, ''-m'', ''pip'', ''install'', ''--upgrade'', ''pip'']
                                  @ [''--break-system-packages'']
            else [py, ''-m'', ''pip'', ''install'', ''--upgrade'', ''pip''])"
    and "mode_command w (install_mode_of use_venv use_brek)
           (if \<not> use_venv then ([py, ''-m'', ''pip'', ''install''] @ VCS_PACKAGES)
                                  @ [''--break-system-packages'']
            else [py, ''-m'', ''pip'', ''install''] @ VCS_PACKAGES)"
    and "mode_command w (install_mode_of use_venv use_brek)
           (if \<not> use_venv then [py, ''-m'', ''pip'', ''install'', ''.'', ''--no-deps'']
                                  @ [''--break-system-packages'']
            else [py, ''-m'', ''pip'', ''install'', ''.'', ''--no-deps''])"
  by (simp_all add: py_def mode_command_def is_pip_install_def install_mode_of_def VCS_PACKAGES_def)

lemma install_sequence_invariant:
  assumes step: "\<And>tr e. I tr \<Longrightarrow> steps_event w (install_mode_of use_venv use_brek) e \<Longrightarrow> I (tr @ [e])"
    and py: "py_exe = (if use_venv then fst (venv_executables w (parse_path w (venv (cli w))))
                       else sys_executable w)"
    and init: "I tr"
  shows "wp (install_sequence w py_exe (\<not> use_venv)) (\<lambda>_. I) (\<lambda>_. I) tr"
proof -
  have out: "I (tr' @ [Print msg])" "I (tr' @ [PrintPanel body title style])"
    if "I tr'" for tr' msg body title style
    using that by (rule step, simp)+
  have run: "wp (install_run w cmd True) (\<lambda>_. I) (\<lambda>_. I) tr'"
    if "mode_command w (install_mode_of use_venv use_brek) cmd" and "I tr'" for cmd tr'
    using step that by (rule install_run_invariant)
  have fin: "I (tr' @ [PrintPanel body title style, Print msg])"
    if "I tr'" for tr' msg body title style
    using out(1) [OF out(2) [OF that, of body title style], of msg] by simp
  have nonempty: "VCS_PACKAGES \<noteq> []"
    by (simp add: VCS_PACKAGES_def)
  show ?thesis
    unfolding install_sequence_def Let_def
    apply (rule wp_thenI [where R = "\<lambda>_. I"])
     apply (simp add: init out)
    apply (rule wp_thenI [where R = "\<lambda>_. I"])
     apply (erule run [rotated])
     apply (simp only: py pip_commands_fit)
    apply (rule wp_thenI [where R = "\<lambda>_. I"])
     apply (simp add: out)
    apply (rule wp_thenI [where R = "\<lambda>_. I"])
     apply (simp only: install_packages_def Let_def nonempty if_False)
     apply (erule run [rotated])
     apply (simp only: py pip_commands_fit)
    apply (rule wp_thenI [where R = "\<lambda>_. I"])
     apply (simp add: out)
    apply (rule wp_thenI [where R = "\<lambda>_. I"])
     apply (simp only: install_local_package_def Let_def)
     apply (erule run [rotated])
     apply (simp only: py pip_commands_fit)
    apply (simp add: wp_then fin)
    done
qed

lemma install_steps_invariant:
  assumes step: "\<And>tr e. I tr \<Longrightarrow> steps_event w (install_mode_of use_venv use_brek) e \<Longrightarrow> I (tr @ [e])"
    and init: "I tr"
  shows "wp (install_steps w use_venv use_brek) (\<lambda>_. I) (\<lambda>_. I) tr"
proof -
  have notice: "I (tr @ [PrintPanel body title style])" for body title style
    using init by (rule step) simp
  have first: "wp (if \<not> use_venv then
                  console_print_panel system_notice (Some ''Notice'') (Some ''yellow'')
                else io_return ()) (\<lambda>_. I) (\<lambda>_. I) tr"
    by (simp add: init notice)
  have rest: "wp (io_bind (resolve_target w use_venv) (\<lambda>py_exe.
                    install_sequence w py_exe (\<not> use_venv))) (\<lambda>_. I) (\<lambda>_. I) tr'"
    if "I tr'" for tr'
  proof (rule wp_bindI)
    show "wp (resolve_target w use_venv)
           (\<lambda>py_exe tr'. py_exe = (if use_venv then fst (venv_executables w (parse_path w (venv (cli w))))
                                    else sys_executable w) \<and> I tr')
           (\<lambda>_. I) tr'"
      using step that by (rule resolve_target_invariant)
  next
    fix py_exe tr''
    assume "py_exe = (if use_venv then fst (venv_executables w (parse_path w (venv (cli w))))
                      else sys_executable w) \<and> I tr''"
    then show "wp (install_sequence w py_exe (\<not> use_venv)) (\<lambda>_. I) (\<lambda>_. I) tr''"
      using step by (intro install_sequence_invariant [where I = I and use_brek = use_brek]) simp_all
  qed
  show ?thesis
    unfolding install_steps_def Let_def break_system_flag_of_def
    using first rest by (rule wp_thenI)
qed

subsection \<open>Mode selection\<close>

lemma steps_event_not_prompt: "steps_event w mode e \<Longrightarrow> \<not> is_prompt e"
  by (cases e) simp_all


text \<open>
  Claim C9. With \<^verbatim>\<open>--yes\<close> and neither \<^verbatim>\<open>--no-venv\<close> nor \<^verbatim>\<open>--brek\<close>, mode selection
  adds no event to the trace, so it does not prompt; it selects the virtualenv mode, for
  which the bypass flag is false; and the whole run contains no prompt.
\<close>

theorem yes_alone_selects_virtualenv:
  assumes "yes (cli w)" and "\<not> no_venv (cli w)" and "\<not> brek (cli w)"
  shows "(case select_mode w tr of
            (Inr (use_venv, use_brek), tr') \<Rightarrow>
               tr' = tr \<and> install_mode_of use_venv use_brek = UseVirtualEnv
               \<and> \<not> break_system_flag_of use_venv
          | (Inl e, tr') \<Rightarrow> False)
         \<and> \<not> list_ex is_prompt (snd (install_main w []))"
proof
  have sel: "select_mode w tr0 = (Inr (True, False), tr0)" for tr0
    using assms by (simp add: select_mode_def io_return_def)
  show "case select_mode w tr of
            (Inr (use_venv, use_brek), tr') \<Rightarrow>
               tr' = tr \<and> install_mode_of use_venv use_brek = UseVirtualEnv
               \<and> \<not> break_system_flag_of use_venv
          | (Inl e, tr') \<Rightarrow> False"
    by (simp add: sel install_mode_of_def break_system_flag_of_def)
  have "wp (install_steps w True False)
          (\<lambda>_ tr'. \<not> list_ex is_prompt tr') (\<lambda>_ tr'. \<not> list_ex is_prompt tr')
          [PrintPanel installer_banner None (Some ''purple'')]"
    by (rule install_steps_invariant) (simp_all add: steps_event_not_prompt)
  then have "\<not> list_ex is_prompt
                (snd (install_steps w True False [PrintPanel installer_banner None (Some ''purple'')]))"
    by (auto simp: wp_def split: prod.splits sum.splits)
  then show "\<not> list_ex is_prompt (snd (install_main w []))"
    by (simp add: install_main_eq sel)
qed

theorem yes_alone_selects_virtualenv_witness:
  "yes (cli yes_world) \<and> \<not> no_venv (cli yes_world) \<and> \<not> brek (cli yes_world)
   \<and> select_mode yes_world [] = (Inr (True, False), [])
   \<and> \<not> list_ex is_prompt (snd (install_main yes_world []))"
proof -
  have h: "yes (cli yes_world)" "\<not> no_venv (cli yes_world)" "\<not> brek (cli yes_world)"
    by (simp_all add: yes_world_def posix_world_def)
  have s: "select_mode yes_world [] = (Inr (True, False), [])"
    by code_simp
  from yes_alone_selects_virtualenv [OF h, of "[]"] h s show ?thesis
    by simp
qed




subsection \<open>The environment resolver\<close>

text \<open>
  Claim C5. \<^verbatim>\<open>ensure_virtualenv\<close> asks first whether the path exists. It starts the
  provisioner \<^verbatim>\<open>python -m venv <path>\<close> once when the path does not exist and starts no
  command when it does. When the path exists or the provisioner ends with exit code 0, it
  returns the interpreter and the installer inside the virtualenv, \<^verbatim>\<open>Scripts/python.exe\<close>
  and \<^verbatim>\<open>Scripts/pip.exe\<close> under the name \<^verbatim>\<open>nt\<close>, \<^verbatim>\<open>bin/python\<close> and \<^verbatim>\<open>bin/pip\<close>
  otherwise; when the provisioner fails it raises and returns no paths.
\<close>

theorem ensure_virtualenv_provisions_once:
  "(case ensure_virtualenv w p tr of (r, tr') \<Rightarrow>
      take (Suc (length tr)) tr' = tr @ [PathExists p (path_exists w (length tr) p)]
      \<and> spawned tr' = spawned tr
           @ (if path_exists w (length tr) p then []
              else [ [sys_executable w, ''-m'', ''venv'', path_str (os_name w) p]])
      \<and> r = (if path_exists w (length tr) p
                 \<or> fst (proc w (length tr + 3)
                           [sys_executable w, ''-m'', ''venv'', path_str (os_name w) p]) = 0
              then Inr (venv_executables w p)
              else Inl (SystemExit (''Command failed: ''
                          @ join '' '' [sys_executable w, ''-m'', ''venv'', path_str (os_name w) p]
                          @ '' (exit ''
                          @ str_int (fst (proc w (length tr + 3)
                               [sys_executable w, ''-m'', ''venv'', path_str (os_name w) p]))
                          @ '')''))))
   \<and> venv_executables w p
       = (if os_name w = ''nt''
          then (path_str (os_name w) (Path (anchor p) (parts p @ [''Scripts'', ''python.exe''])),
                path_str (os_name w) (Path (anchor p) (parts p @ [''Scripts'', ''pip.exe''])))
          else (path_str (os_name w) (Path (anchor p) (parts p @ [''bin'', ''python''])),
                path_str (os_name w) (Path (anchor p) (parts p @ [''bin'', ''pip'']))))"
  by (simp add: ensure_virtualenv_def io_then_def io_bind_def exists_def Let_def
      console_print_panel_def emit_def io_return_def install_run_eq venv_executables_def
      joinpath_def eval_nat_numeral)

theorem ensure_virtualenv_provisions_once_witness:
  "ensure_virtualenv windows_world (Path [] [''env'']) []
     = (Inr (''env'' @ [CHR 0x5C] @ ''Scripts'' @ [CHR 0x5C] @ ''python.exe'',
             ''env'' @ [CHR 0x5C] @ ''Scripts'' @ [CHR 0x5C] @ ''pip.exe''),
        [PathExists (Path [] [''env'']) True,
         PrintPanel ''Using existing virtualenv: [bold]env[/bold]'' (Some ''Virtualenv'') None])
   \<and> spawned (snd (ensure_virtualenv windows_world (Path [] [''env'']) [])) = []
   \<and> fst (ensure_virtualenv posix_world (Path [] [''.venv'']) [])
       = Inr (''.venv/bin/python'', ''.venv/bin/pip'')
   \<and> spawned (snd (ensure_virtualenv posix_world (Path [] [''.venv'']) []))
       = [ [''/usr/bin/python3'', ''-m'', ''venv'', ''.venv'']]"
proof -
  have a: "ensure_virtualenv windows_world (Path [] [''env'']) []
     = (Inr (''env'' @ [CHR 0x5C] @ ''Scripts'' @ [CHR 0x5C] @ ''python.exe'',
             ''env'' @ [CHR 0x5C] @ ''Scripts'' @ [CHR 0x5C] @ ''pip.exe''),
        [PathExists (Path [] [''env'']) True,
         PrintPanel ''Using existing virtualenv: [bold]env[/bold]'' (Some ''Virtualenv'') None])"
    by code_simp
  have b: "path_exists windows_world 0 (Path [] [''env''])"
    by code_simp
  have c: "\<not> path_exists posix_world 0 (Path [] [''.venv''])"
    by code_simp
  have d: "sys_executable posix_world = ''/usr/bin/python3''" "os_name posix_world = ''posix''"
    "fst (proc posix_world 3 [''/usr/bin/python3'', ''-m'', ''venv'', ''.venv'']) = 0"
    "venv_executables posix_world (Path [] [''.venv'']) = (''.venv/bin/python'', ''.venv/bin/pip'')"
    "path_str ''posix'' (Path [] [''.venv'']) = ''.venv''"
    by code_simp+
  from ensure_virtualenv_provisions_once [where w = windows_world and p = "Path [] [''env'']" and tr = "[]"] b
  have e: "spawned (snd (ensure_virtualenv windows_world (Path [] [''env'']) [])) = []"
    by (simp add: split_def)
  from ensure_virtualenv_provisions_once [where w = posix_world and p = "Path [] [''.venv'']" and tr = "[]"] c
  have f: "fst (ensure_virtualenv posix_world (Path [] [''.venv'']) [])
             = Inr (''.venv/bin/python'', ''.venv/bin/pip'')
           \<and> spawned (snd (ensure_virtualenv posix_world (Path [] [''.venv'']) []))
       = [ [''/usr/bin/python3'', ''-m'', ''venv'', ''.venv'']]"
    by (simp add: split_def d)
  from a e f show ?thesis by simp
qed

subsection \<open>The uninstaller\<close>

lemma starts_with_append [simp]: "starts_with (x @ s) x"
  by (induction x) simp_all

lemma starts_with_contains: "starts_with s x \<Longrightarrow> contains s x"
  by (cases s; cases x) simp_all

lemma contains_append: "contains s x \<Longrightarrow> contains (a @ s) x"
  by (induction a) simp_all

lemma contains_middle: "contains (a @ x @ b) x"
  by (intro contains_append starts_with_contains starts_with_append)

lemma uninstall_loop_returns: "fst (uninstall_loop w python_exe break_system pkgs tr) = Inr ()"
  by (induction pkgs arbitrary: tr)
    (simp_all add: io_return_def io_then_def io_bind_def console_print_panel_def emit_def
      uninstall_run_eq Let_def)

lemma uninstall_loop_spawned:
  "spawned (snd (uninstall_loop w python_exe break_system pkgs tr))
     = spawned tr @ map (\<lambda>pkg. [python_exe, ''-m'', ''pip'', ''uninstall'', ''-y'', pkg]
                               @ (if break_system then [''--break-system-packages''] else [])) pkgs"
  by (induction pkgs arbitrary: tr)
    (simp_all add: io_return_def io_then_def io_bind_def console_print_panel_def emit_def
      uninstall_run_eq Let_def)

lemma uninstall_loop_invariant:
  assumes step: "\<And>tr e. I tr \<Longrightarrow> loop_event e \<Longrightarrow> I (tr @ [e])"
    and init: "I tr"
  shows "I (snd (uninstall_loop w python_exe break_system pkgs tr))"
  using init
proof (induction pkgs arbitrary: tr)
  case Nil
  then show ?case by (simp add: io_return_def)
next
  case (Cons pkg pkgs)
  let ?cmd = "[python_exe, ''-m'', ''pip'', ''uninstall'', ''-y'', pkg]
                @ (if break_system then [''--break-system-packages''] else [])"
  let ?rc = "fst (proc w (Suc (Suc (length tr))) ?cmd)"
  let ?t1 = "tr @ [PrintPanel (''Uninstalling package: [bold]'' @ pkg @ ''[/bold]'') None None]"
  let ?t2 = "?t1 @ [Log (''[bold purple]$[/bold purple] '' @ join '' '' ?cmd)]"
  let ?t3 = "?t2 @ [Spawn ?cmd ?rc None]"
  let ?t4 = "?t3 @ [PrintPanel (''[red]Command failed: '' @ join '' '' ?cmd @ ''[/red]'') None None]"
  have 1: "I ?t1" using Cons.prems by (rule step) simp
  have 2: "I ?t2" using 1 by (rule step) simp
  have 3: "I ?t3" using 2 by (rule step) simp
  have 4: "I ?t4" using 3 by (rule step) simp
  have "snd (uninstall_loop w python_exe break_system (pkg # pkgs) tr)
          = snd (uninstall_loop w python_exe break_system pkgs (if ?rc \<noteq> 0 then ?t4 else ?t3))"
    by (simp add: io_then_def io_bind_def console_print_panel_def emit_def uninstall_run_eq Let_def)
  moreover have "I (if c then a else b)" if "I a" and "I b" for c a b
    using that by simp
  from this [OF 4 3] have "I (if ?rc \<noteq> 0 then ?t4 else ?t3)" .
  ultimately show ?case
    using Cons.IH by (simp only:)
qed

lemma wp_uninstall_packages:
  "wp (uninstall_packages w python_exe break_system) Q E tr
     = Q () (snd (uninstall_packages w python_exe break_system tr))"
  using uninstall_loop_returns [of w python_exe break_system PYTHON_PACKAGES tr]
  by (cases "uninstall_loop w python_exe break_system PYTHON_PACKAGES tr")
    (simp add: wp_def uninstall_packages_def)

lemma uninstall_packages_invariant:
  assumes "\<And>tr e. I tr \<Longrightarrow> loop_event e \<Longrightarrow> I (tr @ [e])" and "I tr"
  shows "I (snd (uninstall_packages w python_exe break_system tr))"
  unfolding uninstall_packages_def using assms by (rule uninstall_loop_invariant)

lemma questions_differ [simp]: "venv_question w \<noteq> system_question" "system_question \<noteq> venv_question w"
  by (simp_all add: venv_question_def system_question_def)

lemma wp_remove_virtualenv:
  "wp (remove_virtualenv w p) Q E tr =
     (if path_exists w (length tr) p
      then Q () (tr @ [PathExists p True,
                       PrintPanel (''Removing virtualenv: [bold]'' @ path_str (os_name w) p @ ''[/bold]'')
                         None None,
                       Rmtree p,
                       PrintPanel ''[green]Virtualenv removed.[/green]'' None None])
      else Q () (tr @ [PathExists p False,
                       PrintPanel ''[yellow]No virtualenv found.[/yellow]'' None None]))"
  by (simp add: remove_virtualenv_def wp_bind wp_then)

text \<open>
  The trace of \<^verbatim>\<open>main\<close> up to the second confirmation, by what the outside answers.
\<close>

lemma uninstall_main_wp:
  "wp (uninstall_main w) Q E [] =
     (let tr1 = [PrintPanel uninstaller_banner None None,
                 PathExists (DEFAULT_VENV w) (path_exists w 1 (DEFAULT_VENV w))];
          tr2 = (if path_exists w 1 (DEFAULT_VENV w) then
                   tr1 @ [ConfirmAsk (venv_question w) True (confirm_answer w 2 (venv_question w))]
                     @ (if confirm_answer w 2 (venv_question w) then
                          (if path_exists w 3 (DEFAULT_VENV w) then
                             [PathExists (DEFAULT_VENV w) True,
                              PrintPanel (''Removing virtualenv: [bold]''
                                 @ path_str (os_name w) (DEFAULT_VENV w) @ ''[/bold]'') None None,
                              Rmtree (DEFAULT_VENV w),
                              PrintPanel ''[green]Virtualenv removed.[/green]'' None None]
                           else
                             [PathExists (DEFAULT_VENV w) False,
                              PrintPanel ''[yellow]No virtualenv found.[/yellow]'' None None])
                        else [])
                 else tr1);
          a = confirm_answer w (length tr2) system_question;
          tr3 = tr2 @ [ConfirmAsk system_question False a]
      in Q () ((if a then snd (uninstall_packages w (sys_executable w) True tr3) else tr3)
                 @ [PrintPanel uninstall_completed None None]))"
  by (simp add: uninstall_main_def wp_then wp_bind wp_remove_virtualenv wp_uninstall_packages
      Let_def eval_nat_numeral)

lemma uninstall_main_result:
  assumes "\<And>tr. Q () tr = P tr"
  shows "P (snd (uninstall_main w [])) = wp (uninstall_main w) Q (\<lambda>_ _. False) []"
    and "wp (uninstall_main w) (\<lambda>_ _. True) (\<lambda>_ _. False) []"
    and "fst (uninstall_main w []) = Inr ()"
proof -
  show t: "wp (uninstall_main w) (\<lambda>_ _. True) (\<lambda>_ _. False) []"
    by (simp add: uninstall_main_wp Let_def)
  then show r: "fst (uninstall_main w []) = Inr ()"
    by (auto simp: wp_def split: prod.splits sum.splits)
  then show "P (snd (uninstall_main w [])) = wp (uninstall_main w) Q (\<lambda>_ _. False) []"
    by (cases "uninstall_main w []") (simp add: wp_def assms)
qed

lemma loop_event_no_prompt: "loop_event e \<Longrightarrow> \<not> is_prompt e"
  by (cases e) simp_all

lemma loop_event_no_asks: "loop_event e \<Longrightarrow> \<not> asks q e"
  by (cases e) simp_all

lemma uninstall_packages_prompts:
  "filter is_prompt (snd (uninstall_packages w python_exe break_system tr)) = filter is_prompt tr"
  by (rule uninstall_packages_invariant [where I = "\<lambda>tr'. filter is_prompt tr' = filter is_prompt tr"])
    (simp_all add: loop_event_no_prompt)

lemma uninstall_packages_spawned:
  "spawned (snd (uninstall_packages w python_exe break_system tr))
     = spawned tr @ map (\<lambda>pkg. [python_exe, ''-m'', ''pip'', ''uninstall'', ''-y'', pkg]
                               @ (if break_system then [''--break-system-packages''] else []))
                      [''ghost'', ''adb-shell'', ''pex'', ''badges'', ''colorscript'']"
  unfolding uninstall_packages_def uninstall_loop_spawned by (simp add: PYTHON_PACKAGES_def)

lemma uninstall_packages_asked:
  "(ConfirmAsk q d a \<in> set (snd (uninstall_packages w python_exe break_system tr)))
     = (ConfirmAsk q d a \<in> set tr)"
proof -
  have "(ConfirmAsk q d a \<in> set (filter is_prompt (snd (uninstall_packages w python_exe break_system tr))))
          = (ConfirmAsk q d a \<in> set (filter is_prompt tr))"
    by (simp only: uninstall_packages_prompts)
  then show ?thesis by simp
qed

text \<open>
  Claim C8. \<^verbatim>\<open>uninstall_packages\<close> returns normally and starts one uninstall command for
  each of the five packages, in the order of the list, whatever exit codes the commands
  return; and a run of \<^verbatim>\<open>main\<close> in which the operator confirms the removal of the
  packages starts exactly these five commands, with the running interpreter and the bypass
  option.
\<close>

theorem uninstall_attempts_every_package:
  "fst (uninstall_packages w python_exe break_system tr) = Inr ()
   \<and> spawned (snd (uninstall_packages w python_exe break_system tr))
       = spawned tr @ map (\<lambda>pkg. [python_exe, ''-m'', ''pip'', ''uninstall'', ''-y'', pkg]
                                 @ (if break_system then [''--break-system-packages''] else []))
                        [''ghost'', ''adb-shell'', ''pex'', ''badges'', ''colorscript'']
   \<and> spawned (snd (uninstall_main w []))
       = (if ConfirmAsk system_question False True \<in> set (snd (uninstall_main w []))
          then map (\<lambda>pkg. [sys_executable w, ''-m'', ''pip'', ''uninstall'', ''-y'', pkg,
                            ''--break-system-packages''])
                 [''ghost'', ''adb-shell'', ''pex'', ''badges'', ''colorscript'']
          else [])"
proof (intro conjI)
  show "fst (uninstall_packages w python_exe break_system tr) = Inr ()"
    by (simp add: uninstall_packages_def uninstall_loop_returns)
  show "spawned (snd (uninstall_packages w python_exe break_system tr))
       = spawned tr @ map (\<lambda>pkg. [python_exe, ''-m'', ''pip'', ''uninstall'', ''-y'', pkg]
                                 @ (if break_system then [''--break-system-packages''] else []))
                        [''ghost'', ''adb-shell'', ''pex'', ''badges'', ''colorscript'']"
    by (rule uninstall_packages_spawned)
  let ?P = "\<lambda>tr'. spawned tr'
       = (if ConfirmAsk system_question False True \<in> set tr'
          then map (\<lambda>pkg. [sys_executable w, ''-m'', ''pip'', ''uninstall'', ''-y'', pkg,
                            ''--break-system-packages''])
                 [''ghost'', ''adb-shell'', ''pex'', ''badges'', ''colorscript'']
          else [])"
  have "wp (uninstall_main w) (\<lambda>_. ?P) (\<lambda>_ _. False) []"
    by (simp add: uninstall_main_wp Let_def uninstall_packages_spawned uninstall_packages_asked)
  then show "?P (snd (uninstall_main w []))"
    by (auto simp: wp_def split: prod.splits sum.splits)
qed

theorem uninstall_attempts_every_package_witness:
  "ConfirmAsk system_question False True \<in> set (snd (uninstall_main pex_fails_world []))
   \<and> Spawn [''/usr/bin/python3'', ''-m'', ''pip'', ''uninstall'', ''-y'', ''pex'',
             ''--break-system-packages''] 2 None \<in> set (snd (uninstall_main pex_fails_world []))
   \<and> spawned (snd (uninstall_main pex_fails_world []))
       = [ [''/usr/bin/python3'', ''-m'', ''pip'', ''uninstall'', ''-y'', ''ghost'', ''--break-system-packages''],
          [''/usr/bin/python3'', ''-m'', ''pip'', ''uninstall'', ''-y'', ''adb-shell'', ''--break-system-packages''],
          [''/usr/bin/python3'', ''-m'', ''pip'', ''uninstall'', ''-y'', ''pex'', ''--break-system-packages''],
          [''/usr/bin/python3'', ''-m'', ''pip'', ''uninstall'', ''-y'', ''badges'', ''--break-system-packages''],
          [''/usr/bin/python3'', ''-m'', ''pip'', ''uninstall'', ''-y'', ''colorscript'', ''--break-system-packages'']]"
proof -
  have a: "ConfirmAsk system_question False True \<in> set (snd (uninstall_main pex_fails_world []))"
    by code_simp
  have b: "Spawn [''/usr/bin/python3'', ''-m'', ''pip'', ''uninstall'', ''-y'', ''pex'',
             ''--break-system-packages''] 2 None \<in> set (snd (uninstall_main pex_fails_world []))"
    by code_simp
  have c: "sys_executable pex_fails_world = ''/usr/bin/python3''"
    by code_simp
  from uninstall_attempts_every_package [of pex_fails_world "[]" False "[]"] a b c
  show ?thesis by simp
qed

lemma uninstall_packages_asks:
  "filter (asks q) (snd (uninstall_packages w python_exe break_system tr)) = filter (asks q) tr"
  by (rule uninstall_packages_invariant [where I = "\<lambda>tr'. filter (asks q) tr' = filter (asks q) tr"])
    (simp_all add: loop_event_no_asks)

lemma uninstall_packages_take:
  assumes "n \<le> length tr"
  shows "take n (snd (uninstall_packages w python_exe break_system tr)) = take n tr"
    and "n \<le> length (snd (uninstall_packages w python_exe break_system tr))"
proof -
  have "take n (snd (uninstall_packages w python_exe break_system tr)) = take n tr
        \<and> n \<le> length (snd (uninstall_packages w python_exe break_system tr))"
    by (rule uninstall_packages_invariant
          [where I = "\<lambda>tr'. take n tr' = take n tr \<and> n \<le> length tr'"])
       (simp_all add: assms)
  then show "take n (snd (uninstall_packages w python_exe break_system tr)) = take n tr"
    and "n \<le> length (snd (uninstall_packages w python_exe break_system tr))"
    by simp_all
qed

lemma uninstall_packages_keeps:
  assumes "\<not> loop_event e"
  shows "(e \<in> set (snd (uninstall_packages w python_exe break_system tr))) = (e \<in> set tr)"
proof (rule uninstall_packages_invariant [where I = "\<lambda>tr'. (e \<in> set tr') = (e \<in> set tr)"])
  fix tr' e'
  assume "(e \<in> set tr') = (e \<in> set tr)" and "loop_event e'"
  with assms have "e' \<noteq> e" by auto
  with \<open>(e \<in> set tr') = (e \<in> set tr)\<close> show "(e \<in> set (tr' @ [e'])) = (e \<in> set tr)"
    by auto
qed simp

text \<open>
  Claim C10. The uninstaller's \<^verbatim>\<open>run\<close> always returns normally: after the log line and
  the command it prints the failure panel when \<^verbatim>\<open>check\<close> is set and the exit code is not
  0, and nothing otherwise. Every run of \<^verbatim>\<open>main\<close> returns normally, with exit status 0:
  its second event is the test for the default virtualenv, which is the first gate; the
  confirmation for that gate is asked exactly when the test found the directory; the
  confirmation of the second gate is asked exactly once; and its last event is the
  completion panel.
\<close>

theorem uninstaller_never_aborts:
  "uninstall_run w cmd check tr
     = (Inr (),
        tr @ [Log (''[bold purple]$[/bold purple] '' @ join '' '' cmd),
              Spawn cmd (fst (proc w (Suc (length tr)) cmd)) None]
           @ (if check \<and> fst (proc w (Suc (length tr)) cmd) \<noteq> 0
              then [PrintPanel (''[red]Command failed: '' @ join '' '' cmd @ ''[/red]'') None None]
              else []))
   \<and> fst (uninstall_main w []) = Inr ()
   \<and> exit_status (fst (uninstall_main w [])) = 0
   \<and> take 2 (snd (uninstall_main w []))
       = [PrintPanel uninstaller_banner None None,
          PathExists (DEFAULT_VENV w) (path_exists w 1 (DEFAULT_VENV w))]
   \<and> length (filter (asks (venv_question w)) (snd (uninstall_main w [])))
       = (if path_exists w 1 (DEFAULT_VENV w) then 1 else 0)
   \<and> length (filter (asks system_question) (snd (uninstall_main w []))) = 1
   \<and> last (snd (uninstall_main w [])) = PrintPanel uninstall_completed None None"
proof (intro conjI)
  show "uninstall_run w cmd check tr
     = (Inr (),
        tr @ [Log (''[bold purple]$[/bold purple] '' @ join '' '' cmd),
              Spawn cmd (fst (proc w (Suc (length tr)) cmd)) None]
           @ (if check \<and> fst (proc w (Suc (length tr)) cmd) \<noteq> 0
              then [PrintPanel (''[red]Command failed: '' @ join '' '' cmd @ ''[/red]'') None None]
              else []))"
    by (rule uninstall_run_eq)
  show r: "fst (uninstall_main w []) = Inr ()"
    by (rule uninstall_main_result(3) [where Q = "\<lambda>_ _. True" and P = "\<lambda>_. True"]) simp
  then show "exit_status (fst (uninstall_main w [])) = 0"
    by simp
  have "wp (uninstall_main w)
          (\<lambda>_ tr'. take 2 tr' = [PrintPanel uninstaller_banner None None,
                                  PathExists (DEFAULT_VENV w) (path_exists w 1 (DEFAULT_VENV w))])
          (\<lambda>_ _. False) []"
    by (simp add: uninstall_main_wp Let_def uninstall_packages_take)
  then show "take 2 (snd (uninstall_main w []))
       = [PrintPanel uninstaller_banner None None,
          PathExists (DEFAULT_VENV w) (path_exists w 1 (DEFAULT_VENV w))]"
    by (auto simp: wp_def split: prod.splits sum.splits)
  have "wp (uninstall_main w)
          (\<lambda>_ tr'. length (filter (asks (venv_question w)) tr')
                      = (if path_exists w 1 (DEFAULT_VENV w) then 1 else 0))
          (\<lambda>_ _. False) []"
    by (simp add: uninstall_main_wp Let_def uninstall_packages_asks)
  then show "length (filter (asks (venv_question w)) (snd (uninstall_main w [])))
       = (if path_exists w 1 (DEFAULT_VENV w) then 1 else 0)"
    by (auto simp: wp_def split: prod.splits sum.splits)
  have "wp (uninstall_main w)
          (\<lambda>_ tr'. length (filter (asks system_question) tr') = 1) (\<lambda>_ _. False) []"
    by (simp add: uninstall_main_wp Let_def uninstall_packages_asks)
  then show "length (filter (asks system_question) (snd (uninstall_main w []))) = 1"
    by (auto simp: wp_def split: prod.splits sum.splits)
  have "wp (uninstall_main w)
          (\<lambda>_ tr'. last tr' = PrintPanel uninstall_completed None None) (\<lambda>_ _. False) []"
    by (simp add: uninstall_main_wp Let_def)
  then show "last (snd (uninstall_main w [])) = PrintPanel uninstall_completed None None"
    by (auto simp: wp_def split: prod.splits sum.splits)
qed

theorem uninstaller_never_aborts_witness:
  "fst (uninstall_main pex_fails_world []) = Inr ()
   \<and> list_ex spawn_failed (snd (uninstall_main pex_fails_world []))
   \<and> last (snd (uninstall_main pex_fails_world [])) = PrintPanel uninstall_completed None None
   \<and> length (filter (asks (venv_question pex_fails_world)) (snd (uninstall_main pex_fails_world []))) = 0
   \<and> length (filter (asks system_question) (snd (uninstall_main pex_fails_world []))) = 1"
proof -
  have a: "list_ex spawn_failed (snd (uninstall_main pex_fails_world []))"
    by code_simp
  have b: "\<not> path_exists pex_fails_world 1 (DEFAULT_VENV pex_fails_world)"
    by code_simp
  from uninstaller_never_aborts [of pex_fails_world "[]" False "[]"] a b
  show ?thesis by simp
qed

subsection \<open>What the operator is told\<close>

text \<open>
  Claim C6, as amended. When the test for the default virtualenv at the start of \<^verbatim>\<open>main\<close>
  finds nothing, the run goes on without error: its first three events are the banner, the
  test and the confirmation for the packages, and the panel \<^verbatim>\<open>No virtualenv found.\<close> is
  not printed anywhere in the run. That panel is what \<^verbatim>\<open>remove_virtualenv\<close> prints, and
  then returns normally, when it is called on a path that does not exist.
\<close>

theorem absent_virtualenv_is_skipped:
  "(\<not> path_exists w 1 (DEFAULT_VENV w) \<longrightarrow>
      fst (uninstall_main w []) = Inr ()
      \<and> take 3 (snd (uninstall_main w []))
          = [PrintPanel uninstaller_banner None None,
             PathExists (DEFAULT_VENV w) False,
             ConfirmAsk system_question False (confirm_answer w 2 system_question)]
      \<and> PrintPanel ''[yellow]No virtualenv found.[/yellow]'' None None
          \<notin> set (snd (uninstall_main w [])))
   \<and> (\<not> path_exists w (length tr) p \<longrightarrow>
        remove_virtualenv w p tr
          = (Inr (), tr @ [PathExists p False,
                           PrintPanel ''[yellow]No virtualenv found.[/yellow]'' None None]))"
proof (intro conjI impI)
  show "fst (uninstall_main w []) = Inr ()"
    by (rule uninstall_main_result(3) [where Q = "\<lambda>_ _. True" and P = "\<lambda>_. True"]) simp
next
  assume absent: "\<not> path_exists w 1 (DEFAULT_VENV w)"
  have "wp (uninstall_main w)
          (\<lambda>_ tr'. take 3 tr'
             = [PrintPanel uninstaller_banner None None,
                PathExists (DEFAULT_VENV w) False,
                ConfirmAsk system_question False (confirm_answer w 2 system_question)])
          (\<lambda>_ _. False) []"
    using absent by (simp add: uninstall_main_wp Let_def uninstall_packages_take eval_nat_numeral)
  then show "take 3 (snd (uninstall_main w []))
          = [PrintPanel uninstaller_banner None None,
             PathExists (DEFAULT_VENV w) False,
             ConfirmAsk system_question False (confirm_answer w 2 system_question)]"
    by (auto simp: wp_def split: prod.splits sum.splits)
next
  assume absent: "\<not> path_exists w 1 (DEFAULT_VENV w)"
  have "wp (uninstall_main w)
          (\<lambda>_ tr'. PrintPanel ''[yellow]No virtualenv found.[/yellow]'' None None \<notin> set tr')
          (\<lambda>_ _. False) []"
    using absent
    by (simp add: uninstall_main_wp Let_def uninstall_packages_keeps uninstaller_banner_def
        uninstall_completed_def)
  then show "PrintPanel ''[yellow]No virtualenv found.[/yellow]'' None None
               \<notin> set (snd (uninstall_main w []))"
    by (auto simp: wp_def split: prod.splits sum.splits)
next
  assume "\<not> path_exists w (length tr) p"
  then show "remove_virtualenv w p tr
          = (Inr (), tr @ [PathExists p False,
                           PrintPanel ''[yellow]No virtualenv found.[/yellow]'' None None])"
    by (simp add: remove_virtualenv_def io_bind_def exists_def Let_def console_print_panel_def
        emit_def)
qed

theorem absent_virtualenv_is_skipped_witness:
  "\<not> path_exists pex_fails_world 1 (DEFAULT_VENV pex_fails_world)
   \<and> \<not> path_exists pex_fails_world 0 (DEFAULT_VENV pex_fails_world)
   \<and> fst (uninstall_main pex_fails_world []) = Inr ()
   \<and> take 3 (snd (uninstall_main pex_fails_world []))
       = [PrintPanel uninstaller_banner None None,
          PathExists (Path ''/'' [''opt'', ''Ghost'', ''.venv'']) False,
          ConfirmAsk system_question False True]
   \<and> PrintPanel ''[yellow]No virtualenv found.[/yellow]'' None None
       \<notin> set (snd (uninstall_main pex_fails_world []))
   \<and> remove_virtualenv pex_fails_world (DEFAULT_VENV pex_fails_world) []
       = (Inr (), [PathExists (Path ''/'' [''opt'', ''Ghost'', ''.venv'']) False,
                   PrintPanel ''[yellow]No virtualenv found.[/yellow]'' None None])"
proof -
  have a: "\<not> path_exists pex_fails_world 1 (DEFAULT_VENV pex_fails_world)"
    "\<not> path_exists pex_fails_world (length ([] :: event list)) (DEFAULT_VENV pex_fails_world)"
    by code_simp+
  have b: "DEFAULT_VENV pex_fails_world = Path ''/'' [''opt'', ''Ghost'', ''.venv'']"
    "confirm_answer pex_fails_world 2 system_question = True"
    by code_simp+
  from absent_virtualenv_is_skipped
         [where w = pex_fails_world and tr = "[]" and p = "DEFAULT_VENV pex_fails_world"] a b
  show ?thesis by simp
qed

text \<open>
  The claim as the specification states it fails on the sample world, where nothing exists
  and the operator declines: the run prints the banner and the completion panel and nothing
  else.
\<close>

theorem absent_virtualenv_not_reported:
  "\<not> path_exists posix_world 1 (DEFAULT_VENV posix_world)
   \<and> uninstall_main posix_world []
       = (Inr (), [PrintPanel uninstaller_banner None None,
                   PathExists (Path ''/'' [''opt'', ''Ghost'', ''.venv'']) False,
                   ConfirmAsk system_question False False,
                   PrintPanel uninstall_completed None None])
   \<and> shown (snd (uninstall_main posix_world [])) = [uninstaller_banner, uninstall_completed]
   \<and> \<not> presents ''No virtualenv'' (snd (uninstall_main posix_world []))"
  by code_simp

lemma presents_append: "presents x (tr @ tr') = (presents x tr \<or> presents x tr')"
  by (simp add: presents_def)

text \<open>
  Claim C7, as amended. When a command of the installer fails, what its \<^verbatim>\<open>run\<close> adds to
  the trace is the log line with the command line, the command, and the panel with the
  stripped captured standard error, all of them before the exception is raised; so the
  console shows both the command line and the stripped error text. When a command of the
  uninstaller fails, its \<^verbatim>\<open>run\<close> adds the log line, the command, whose standard error it
  does not capture, and a panel that shows the command line; what the uninstaller's
  \<^verbatim>\<open>run\<close> does is the same whatever the commands write to standard error.
\<close>

theorem failure_output_of_the_runners:
  "(fst (proc w (Suc (length tr)) cmd) \<noteq> 0 \<longrightarrow>
      drop (length tr) (snd (install_run w cmd check tr))
        = [Log (''[bold purple]$[/bold purple] '' @ join '' '' cmd),
           Spawn cmd (fst (proc w (Suc (length tr)) cmd)) (Some (snd (proc w (Suc (length tr)) cmd))),
           PrintPanel (''[red]Error:[/red] '' @ strip (snd (proc w (Suc (length tr)) cmd)))
             (Some ''Installation Error'') None]
      \<and> presents (join '' '' cmd) (snd (install_run w cmd check tr))
      \<and> presents (strip (snd (proc w (Suc (length tr)) cmd))) (snd (install_run w cmd check tr))
      \<and> drop (length tr) (snd (uninstall_run w cmd True tr))
        = [Log (''[bold purple]$[/bold purple] '' @ join '' '' cmd),
           Spawn cmd (fst (proc w (Suc (length tr)) cmd)) None,
           PrintPanel (''[red]Command failed: '' @ join '' '' cmd @ ''[/red]'') None None]
      \<and> presents (join '' '' cmd) (snd (uninstall_run w cmd True tr)))
   \<and> uninstall_run (w\<lparr>proc := \<lambda>t c. (fst (proc w t c), err)\<rparr>) cmd check tr
       = uninstall_run w cmd check tr"
proof (intro conjI impI)
  let ?log = "Log (''[bold purple]$[/bold purple] '' @ join '' '' cmd)"
  let ?err = "snd (proc w (Suc (length tr)) cmd)"
  let ?panel = "PrintPanel (''[red]Error:[/red] '' @ strip ?err) (Some ''Installation Error'') None"
  let ?failed = "PrintPanel (''[red]Command failed: '' @ join '' '' cmd @ ''[/red]'') None None"
  assume f: "fst (proc w (Suc (length tr)) cmd) \<noteq> 0"
  have i: "snd (install_run w cmd check tr)
             = tr @ [?log, Spawn cmd (fst (proc w (Suc (length tr)) cmd)) (Some ?err), ?panel]"
    using f by (simp add: install_run_eq)
  have u: "snd (uninstall_run w cmd True tr)
             = tr @ [?log, Spawn cmd (fst (proc w (Suc (length tr)) cmd)) None, ?failed]"
    using f by (simp add: uninstall_run_eq)
  have c1: "contains (''[bold purple]$[/bold purple] '' @ join '' '' cmd) (join '' '' cmd)"
    using contains_middle [of "''[bold purple]$[/bold purple] ''" "join '' '' cmd" "[]"]
    by (simp only: append_Nil2)
  have c2: "contains (''[red]Error:[/red] '' @ strip ?err) (strip ?err)"
    using contains_middle [of "''[red]Error:[/red] ''" "strip ?err" "[]"]
    by (simp only: append_Nil2)
  have c3: "contains (''[red]Command failed: '' @ join '' '' cmd @ ''[/red]'') (join '' '' cmd)"
    by (rule contains_middle)
  have p1: "presents (join '' '' cmd) [?log]"
    by (simp only: presents_def shown.simps list_ex_Nil_iff list_ex_Cons_iff simp_thms c1)
  have p2: "presents (strip ?err) [?panel]"
    by (simp only: presents_def shown.simps list_ex_Nil_iff list_ex_Cons_iff simp_thms c2)
  show "drop (length tr) (snd (install_run w cmd check tr))
        = [?log, Spawn cmd (fst (proc w (Suc (length tr)) cmd)) (Some ?err), ?panel]"
    by (simp add: i)
  show "presents (join '' '' cmd) (snd (install_run w cmd check tr))"
    using p1 presents_append [of "join '' '' cmd" "tr @ [?log]"
        "[Spawn cmd (fst (proc w (Suc (length tr)) cmd)) (Some ?err), ?panel]"]
      presents_append [of "join '' '' cmd" tr "[?log]"]
    by (simp only: i append_assoc append_Cons append_Nil simp_thms)
  show "presents (strip ?err) (snd (install_run w cmd check tr))"
    using p2 presents_append [of "strip ?err"
        "tr @ [?log, Spawn cmd (fst (proc w (Suc (length tr)) cmd)) (Some ?err)]" "[?panel]"]
    by (simp only: i append_assoc append_Cons append_Nil simp_thms)
  show "drop (length tr) (snd (uninstall_run w cmd True tr))
        = [?log, Spawn cmd (fst (proc w (Suc (length tr)) cmd)) None, ?failed]"
    by (simp add: u)
  show "presents (join '' '' cmd) (snd (uninstall_run w cmd True tr))"
    using p1 presents_append [of "join '' '' cmd" "tr @ [?log]"
        "[Spawn cmd (fst (proc w (Suc (length tr)) cmd)) None, ?failed]"]
      presents_append [of "join '' '' cmd" tr "[?log]"]
    by (simp only: u append_assoc append_Cons append_Nil simp_thms)
next
  show "uninstall_run (w\<lparr>proc := \<lambda>t c. (fst (proc w t c), err)\<rparr>) cmd check tr
       = uninstall_run w cmd check tr"
    by (simp add: uninstall_run_eq)
qed

theorem failure_output_of_the_runners_witness:
  "fst (proc pex_fails_world 1 [''pip'', ''uninstall'', ''pex'']) \<noteq> 0
   \<and> snd (install_run pex_fails_world [''pip'', ''uninstall'', ''pex''] True [])
       = [Log ''[bold purple]$[/bold purple] pip uninstall pex'',
          Spawn [''pip'', ''uninstall'', ''pex''] 2 (Some ''boom''),
          PrintPanel ''[red]Error:[/red] boom'' (Some ''Installation Error'') None]
   \<and> presents (join '' '' [''pip'', ''uninstall'', ''pex''])
         (snd (install_run pex_fails_world [''pip'', ''uninstall'', ''pex''] True []))
   \<and> presents (strip (snd (proc pex_fails_world 1 [''pip'', ''uninstall'', ''pex''])))
         (snd (install_run pex_fails_world [''pip'', ''uninstall'', ''pex''] True []))
   \<and> snd (uninstall_run pex_fails_world [''pip'', ''uninstall'', ''pex''] True [])
       = [Log ''[bold purple]$[/bold purple] pip uninstall pex'',
          Spawn [''pip'', ''uninstall'', ''pex''] 2 None,
          PrintPanel ''[red]Command failed: pip uninstall pex[/red]'' None None]
   \<and> presents (join '' '' [''pip'', ''uninstall'', ''pex''])
         (snd (uninstall_run pex_fails_world [''pip'', ''uninstall'', ''pex''] True []))"
proof -
  have a: "fst (proc pex_fails_world (Suc (length ([] :: event list))) [''pip'', ''uninstall'', ''pex'']) \<noteq> 0"
    by code_simp
  have b: "fst (proc pex_fails_world 1 [''pip'', ''uninstall'', ''pex'']) \<noteq> 0"
    by code_simp
  have c: "snd (install_run pex_fails_world [''pip'', ''uninstall'', ''pex''] True [])
       = [Log ''[bold purple]$[/bold purple] pip uninstall pex'',
          Spawn [''pip'', ''uninstall'', ''pex''] 2 (Some ''boom''),
          PrintPanel ''[red]Error:[/red] boom'' (Some ''Installation Error'') None]"
    by code_simp
  have d: "snd (uninstall_run pex_fails_world [''pip'', ''uninstall'', ''pex''] True [])
       = [Log ''[bold purple]$[/bold purple] pip uninstall pex'',
          Spawn [''pip'', ''uninstall'', ''pex''] 2 None,
          PrintPanel ''[red]Command failed: pip uninstall pex[/red]'' None None]"
    by code_simp
  have e: "Suc (length ([] :: event list)) = 1"
    by simp
  from failure_output_of_the_runners
         [where w = pex_fails_world and tr = "[]" and cmd = "[''pip'', ''uninstall'', ''pex'']"
            and check = True and err = "[]"] a
  have "presents (join '' '' [''pip'', ''uninstall'', ''pex''])
          (snd (install_run pex_fails_world [''pip'', ''uninstall'', ''pex''] True []))
      \<and> presents (strip (snd (proc pex_fails_world 1 [''pip'', ''uninstall'', ''pex''])))
          (snd (install_run pex_fails_world [''pip'', ''uninstall'', ''pex''] True []))
      \<and> presents (join '' '' [''pip'', ''uninstall'', ''pex''])
          (snd (uninstall_run pex_fails_world [''pip'', ''uninstall'', ''pex''] True []))"
    unfolding e by blast
  with b c d show ?thesis by blast
qed

text \<open>
  The claim as the specification states it fails for the uninstaller: the command that
  uninstalls \<^verbatim>\<open>pex\<close> writes \<^verbatim>\<open>boom\<close> to standard error and ends with exit code 2, and
  nothing that the uninstaller's \<^verbatim>\<open>run\<close> puts on the console contains that text.
\<close>

theorem uninstaller_hides_error_text:
  "proc pex_fails_world 1
     [''/usr/bin/python3'', ''-m'', ''pip'', ''uninstall'', ''-y'', ''pex'', ''--break-system-packages'']
     = (2, ''boom'')
   \<and> uninstall_run pex_fails_world
       [''/usr/bin/python3'', ''-m'', ''pip'', ''uninstall'', ''-y'', ''pex'', ''--break-system-packages'']
       True []
       = (Inr (),
          [Log ''[bold purple]$[/bold purple] /usr/bin/python3 -m pip uninstall -y pex --break-system-packages'',
           Spawn [''/usr/bin/python3'', ''-m'', ''pip'', ''uninstall'', ''-y'', ''pex'',
                  ''--break-system-packages''] 2 None,
           PrintPanel ''[red]Command failed: /usr/bin/python3 -m pip uninstall -y pex --break-system-packages[/red]''
             None None])
   \<and> \<not> presents ''boom''
         (snd (uninstall_run pex_fails_world
                 [''/usr/bin/python3'', ''-m'', ''pip'', ''uninstall'', ''-y'', ''pex'',
                  ''--break-system-packages''] True []))
   \<and> list_ex spawn_failed (snd (uninstall_main pex_fails_world []))
   \<and> \<not> presents ''boom'' (snd (uninstall_main pex_fails_world []))"
  by code_simp

subsection \<open>Where the installer departs from its own help texts\<close>

text \<open>
  Claim C1 fails on the code. The help text of \<^verbatim>\<open>--brek\<close> promises to filter out the
  packages from version-control locations, but \<^verbatim>\<open>use_brek\<close> is never read after mode
  selection: the steps are the same whether it is set or not. With \<^verbatim>\<open>--brek\<close> on the
  command line, and with \<^verbatim>\<open>brek\<close> chosen at the prompt, the dependency step passes all of
  \<^verbatim>\<open>VCS_PACKAGES\<close> to \<^verbatim>\<open>pip install\<close>, the three \<^verbatim>\<open>git+https\<close> specifiers among them.
\<close>

theorem brek_mode_installs_vcs_packages:
  "install_steps w use_venv True = install_steps w use_venv False
   \<and> brek (cli brek_flag_world)
   \<and> spawned (snd (install_main brek_flag_world []))
       = [ [''.venv/bin/python'', ''-m'', ''pip'', ''install'', ''--upgrade'', ''pip''],
          [''.venv/bin/python'', ''-m'', ''pip'', ''install'',
           ''badges @ git+https://github.com/EntySec/Badges'',
           ''pex @ git+https://github.com/EntySec/Pex'',
           ''colorscript @ git+https://github.com/EntySec/ColorScript'',
           ''adb-shell>=0.1.0'', ''rich>=10.0''],
          [''.venv/bin/python'', ''-m'', ''pip'', ''install'', ''.'', ''--no-deps'']]
   \<and> list_ex is_vcs_spec (spawned (snd (install_main brek_flag_world [])) ! 1)
   \<and> select_mode brek_choice_world [PrintPanel installer_banner None (Some ''purple'')]
       = (Inr (False, True),
          [PrintPanel installer_banner None (Some ''purple''),
           PromptAsk ''Choose install mode'' [''venv'', ''brek'', ''system''] ''venv'' ''brek''])
   \<and> install_mode_of False True = FilteredSystemOnly
   \<and> spawned (snd (install_main brek_choice_world []))
       = [ [''/usr/bin/python3'', ''-m'', ''pip'', ''install'', ''--upgrade'', ''pip'',
           ''--break-system-packages''],
          [''/usr/bin/python3'', ''-m'', ''pip'', ''install'',
           ''badges @ git+https://github.com/EntySec/Badges'',
           ''pex @ git+https://github.com/EntySec/Pex'',
           ''colorscript @ git+https://github.com/EntySec/ColorScript'',
           ''adb-shell>=0.1.0'', ''rich>=10.0'', ''--break-system-packages''],
          [''/usr/bin/python3'', ''-m'', ''pip'', ''install'', ''.'', ''--no-deps'',
           ''--break-system-packages'']]
   \<and> list_ex is_vcs_spec (spawned (snd (install_main brek_choice_world [])) ! 1)"
proof (intro conjI)
  show "install_steps w use_venv True = install_steps w use_venv False"
    by (simp add: install_steps_def)
qed code_simp+

text \<open>
  Claim C2 fails on the code. The help text of \<^verbatim>\<open>--no-venv\<close> promises an install into
  the current interpreter without a virtualenv, but the \<^verbatim>\<open>elif auto_yes\<close> branch of mode
  selection is also taken when a flag has forced the mode: with \<^verbatim>\<open>--no-venv --yes\<close> the
  run selects the virtualenv, the bypass flag is false, the virtualenv is created and no
  command carries \<^verbatim>\<open>--break-system-packages\<close>. With \<^verbatim>\<open>--no-venv\<close> alone the flag is true.
\<close>

theorem no_venv_with_yes_uses_virtualenv:
  "no_venv (cli no_venv_yes_world) \<and> yes (cli no_venv_yes_world)
   \<and> select_mode no_venv_yes_world [PrintPanel installer_banner None (Some ''purple'')]
       = (Inr (True, False), [PrintPanel installer_banner None (Some ''purple'')])
   \<and> \<not> break_system_flag_of True
   \<and> spawned (snd (install_main no_venv_yes_world []))
       = [ [''/usr/bin/python3'', ''-m'', ''venv'', ''.venv''],
          [''.venv/bin/python'', ''-m'', ''pip'', ''install'', ''--upgrade'', ''pip''],
          [''.venv/bin/python'', ''-m'', ''pip'', ''install'',
           ''badges @ git+https://github.com/EntySec/Badges'',
           ''pex @ git+https://github.com/EntySec/Pex'',
           ''colorscript @ git+https://github.com/EntySec/ColorScript'',
           ''adb-shell>=0.1.0'', ''rich>=10.0''],
          [''.venv/bin/python'', ''-m'', ''pip'', ''install'', ''.'', ''--no-deps'']]
   \<and> no_venv (cli no_venv_world) \<and> \<not> yes (cli no_venv_world)
   \<and> select_mode no_venv_world [PrintPanel installer_banner None (Some ''purple'')]
       = (Inr (False, False), [PrintPanel installer_banner None (Some ''purple'')])
   \<and> break_system_flag_of False"
  by code_simp

end
